theory Spec2Isabelle
  imports Complex_Main "HOL-Library.Char_ord" "HOL-Library.List_Lexorder"
    "HOL-Library.Product_Lexorder"
begin

section \<open>Data model\<close>

text \<open>
  The programs work on pandas tables whose rows reach the row functions as Python
  objects. A table cell is a Python \<open>int\<close> (unbounded), a Python \<open>float\<close> or a string.
  A float is an IEEE 754 double: a finite one is modelled by the real number it stands
  for (\<open>PyFloat\<close>), the two infinities and the missing value NaN are cells of their own.
  The two zeros of the doubles are one cell, \<open>PyFloat 0\<close>: no comparison tells them apart,
  and Python's division raises on either. Strings are byte strings: a non-ASCII
  character of the source is written as its UTF-8 bytes.
\<close>

datatype cell = PyInt int | PyFloat real | PInf | NInf | NaN | Str string

datatype py_error =
    KeyError string
  | TypeError
  | ValueError "string list"
  | AttributeError
  | ZeroDivisionError
  | OverflowError

type_synonym row = "string \<rightharpoonup> cell"

record frame =
  columns :: "string list"
  rows :: "row list"

text \<open>\<open>pd.DataFrame()\<close>.\<close>

definition DataFrame0 :: frame where
  "DataFrame0 = \<lparr>columns = [], rows = []\<rparr>"

text \<open>\<open>row.get(key, default)\<close> and \<open>row[key]\<close> of a row of a table.\<close>

definition get :: "row \<Rightarrow> string \<Rightarrow> cell \<Rightarrow> cell" where
  "get r k d = (case r k of Some v \<Rightarrow> v | None \<Rightarrow> d)"

definition getitem :: "row \<Rightarrow> string \<Rightarrow> py_error + cell" where
  "getitem r k = (case r k of Some v \<Rightarrow> Inr v | None \<Rightarrow> Inl (KeyError k))"

text \<open>
  \<open>df[c] = values\<close>: an existing column keeps its place and takes the new values, a new
  column goes last.
\<close>

definition setitem :: "frame \<Rightarrow> string \<Rightarrow> cell list \<Rightarrow> frame" where
  "setitem df c vs =
     \<lparr>columns = (if c \<in> set (columns df) then columns df else columns df @ [c]),
      rows = map (\<lambda>(r, v). r(c \<mapsto> v)) (zip (rows df) vs)\<rparr>"

text \<open>
  \<open>df.apply(f, axis=1)\<close>: \<open>f\<close> on every row in order; the first exception ends the
  call.
\<close>

fun apply_rows :: "(row \<Rightarrow> py_error + 'a) \<Rightarrow> row list \<Rightarrow> py_error + 'a list" where
  "apply_rows f [] = Inr []"
| "apply_rows f (r # rs) =
     (case f r of
        Inl e \<Rightarrow> Inl e
      | Inr v \<Rightarrow> (case apply_rows f rs of Inl e \<Rightarrow> Inl e | Inr vs \<Rightarrow> Inr (v # vs)))"

section \<open>Double precision arithmetic\<close>

text \<open>
  Rounding to the nearest integer, a tie to the even one: the rounding of every
  arithmetic operation on doubles, and of \<open>round\<close>.
\<close>

definition round_half_even :: "real \<Rightarrow> int" where
  "round_half_even y =
     (let f = \<lfloor>y\<rfloor>; d = y - of_int f
      in if d < 1 / 2 then f else if d > 1 / 2 then f + 1 else if even f then f else f + 1)"

text \<open>
  The doubles are the multiples \<open>m * 2^e\<close> with \<open>\<bar>m\<bar> < 2^53\<close> and
  \<open>- 1074 \<le> e \<le> 971\<close>. \<open>fexp x\<close> is the exponent of the spacing of the doubles around
  \<open>x\<close> (53 significant bits, and the fixed spacing \<open>2^(- 1074)\<close> of the subnormal
  range); \<open>fl x\<close> is \<open>x\<close> rounded to the nearest multiple of that spacing, a tie to the
  even multiple. The exponent is not bounded above here: a result of magnitude
  \<open>2^1024\<close> or more is an overflow, which the operations below turn into an infinity or
  an \<open>OverflowError\<close> as Python does.
\<close>

definition fexp :: "real \<Rightarrow> int" where
  "fexp x = max (\<lfloor>log 2 \<bar>x\<bar>\<rfloor> - 52) (- 1074)"

definition fl :: "real \<Rightarrow> real" where
  "fl x = of_int (round_half_even (x / 2 powi fexp x)) * 2 powi fexp x"

text \<open>The float of a rounded result: an overflow gives an infinity.\<close>

definition to_float :: "real \<Rightarrow> cell" where
  "to_float x =
     (let y = fl x
      in if 2 ^ 1024 \<le> y then PInf else if y \<le> - (2 ^ 1024) then NInf else PyFloat y)"

section \<open>Python's operators on cells\<close>

text \<open>
  An operand of a float operation: an \<open>int\<close> is converted to the nearest double
  (\<open>OverflowError\<close> when it is too large), a string is a \<open>TypeError\<close>.
\<close>

fun as_float :: "cell \<Rightarrow> py_error + cell" where
  "as_float (PyInt i) =
     (let y = fl (of_int i) in if 2 ^ 1024 \<le> \<bar>y\<bar> then Inl OverflowError else Inr (PyFloat y))"
| "as_float (Str s) = Inl TypeError"
| "as_float v = Inr v"

text \<open>
  \<open>a / b\<close> and \<open>a - b\<close> on two floats. A division by zero raises, whatever the
  dividend; an overflow gives an infinity; an undefined result is NaN.
\<close>

fun float_truediv :: "cell \<Rightarrow> cell \<Rightarrow> py_error + cell" where
  "float_truediv a (PyFloat b) =
     (if b = 0 then Inl ZeroDivisionError
      else case a of
          PyFloat x \<Rightarrow> Inr (to_float (x / b))
        | PInf \<Rightarrow> Inr (if 0 < b then PInf else NInf)
        | NInf \<Rightarrow> Inr (if 0 < b then NInf else PInf)
        | _ \<Rightarrow> Inr NaN)"
| "float_truediv (PyFloat x) PInf = Inr (PyFloat 0)"
| "float_truediv (PyFloat x) NInf = Inr (PyFloat 0)"
| "float_truediv a b = Inr NaN"

fun float_sub :: "cell \<Rightarrow> cell \<Rightarrow> cell" where
  "float_sub (PyFloat x) (PyFloat y) = to_float (x - y)"
| "float_sub (PyFloat x) PInf = NInf"
| "float_sub (PyFloat x) NInf = PInf"
| "float_sub PInf (PyFloat y) = PInf"
| "float_sub PInf NInf = PInf"
| "float_sub NInf (PyFloat y) = NInf"
| "float_sub NInf PInf = NInf"
| "float_sub a b = NaN"

text \<open>
  \<open>a / b\<close>: the quotient of two ints is the exact quotient rounded once
  (\<open>OverflowError\<close> when it is too large for a double); otherwise both operands are
  taken as floats.
\<close>

fun py_truediv :: "cell \<Rightarrow> cell \<Rightarrow> py_error + cell" where
  "py_truediv (PyInt a) (PyInt b) =
     (if b = 0 then Inl ZeroDivisionError
      else let y = fl (of_int a / of_int b)
           in if 2 ^ 1024 \<le> \<bar>y\<bar> then Inl OverflowError else Inr (PyFloat y))"
| "py_truediv a b =
     (case as_float a of
        Inl e \<Rightarrow> Inl (case b of Str s \<Rightarrow> TypeError | _ \<Rightarrow> e)
      | Inr x \<Rightarrow> (case as_float b of Inl e \<Rightarrow> Inl e | Inr y \<Rightarrow> float_truediv x y))"

text \<open>\<open>a - b\<close>: exact on two ints; otherwise the difference of the two floats, rounded.\<close>

fun py_sub :: "cell \<Rightarrow> cell \<Rightarrow> py_error + cell" where
  "py_sub (PyInt a) (PyInt b) = Inr (PyInt (a - b))"
| "py_sub a b =
     (case as_float a of
        Inl e \<Rightarrow> Inl (case b of Str s \<Rightarrow> TypeError | _ \<Rightarrow> e)
      | Inr x \<Rightarrow> (case as_float b of Inl e \<Rightarrow> Inl e | Inr y \<Rightarrow> Inr (float_sub x y)))"

text \<open>
  Comparisons with a number \<open>c\<close>. Python compares an int and a float by their exact
  values; a comparison with NaN is false; an ordering between a string and a number
  raises \<open>TypeError\<close>, while \<open>==\<close> between them is just false.
\<close>

fun py_eq_num :: "cell \<Rightarrow> real \<Rightarrow> bool" where
  "py_eq_num (PyInt i) c = (of_int i = c)"
| "py_eq_num (PyFloat x) c = (x = c)"
| "py_eq_num _ c = False"

fun py_lt_num :: "cell \<Rightarrow> real \<Rightarrow> py_error + bool" where
  "py_lt_num (PyInt i) c = Inr (of_int i < c)"
| "py_lt_num (PyFloat x) c = Inr (x < c)"
| "py_lt_num NInf c = Inr True"
| "py_lt_num (Str s) c = Inl TypeError"
| "py_lt_num _ c = Inr False"

fun py_gt_num :: "cell \<Rightarrow> real \<Rightarrow> py_error + bool" where
  "py_gt_num (PyInt i) c = Inr (of_int i > c)"
| "py_gt_num (PyFloat x) c = Inr (x > c)"
| "py_gt_num PInf c = Inr True"
| "py_gt_num (Str s) c = Inl TypeError"
| "py_gt_num _ c = Inr False"

text \<open>
  \<open>max(0, x)\<close> keeps its first argument, the int 0, unless the second is greater: a
  missing value gives 0.
\<close>

definition py_max0 :: "cell \<Rightarrow> py_error + cell" where
  "py_max0 x = (case py_gt_num x 0 of Inl e \<Rightarrow> Inl e | Inr b \<Rightarrow> Inr (if b then x else PyInt 0))"

text \<open>
  \<open>round(x, 2)\<close> of a float: the exact value of \<open>x\<close> rounded to the nearest multiple of
  1/100, a tie to the even one, and the double nearest to that. An int, an infinity and
  NaN are returned as they are.
\<close>

definition round2 :: "real \<Rightarrow> real" where
  "round2 x = fl (of_int (round_half_even (x * 100)) / 100)"

fun py_round2 :: "cell \<Rightarrow> py_error + cell" where
  "py_round2 (PyFloat x) = Inr (PyFloat (round2 x))"
| "py_round2 (Str s) = Inl TypeError"
| "py_round2 v = Inr v"

section \<open>Risk classification (\<open>src/models/risk_classifier.py\<close>)\<close>

definition Alto :: string where
  "Alto = ''Alto''"

definition Medio :: string where
  "Medio = [CHR ''M'', CHR 0xC3, CHR 0xA9, CHR ''d'', CHR ''i'', CHR ''o'']"

definition Baixo :: string where
  "Baixo = ''Baixo''"

text \<open>
  \<open>RiskClassifier.classify_risk(estoque, previsao)\<close>. The literal \<open>1.0\<close> is the double
  1, the literal \<open>1.2\<close> is the double nearest to 12/10.
\<close>

definition classify_risk :: "cell \<Rightarrow> cell \<Rightarrow> py_error + string" where
  "classify_risk estoque previsao =
     (if py_eq_num previsao 0 then Inr Baixo
      else case py_truediv estoque previsao of
        Inl e \<Rightarrow> Inl e
      | Inr razao \<Rightarrow>
          (case py_lt_num razao 1 of
             Inl e \<Rightarrow> Inl e
           | Inr True \<Rightarrow> Inr Alto
           | Inr False \<Rightarrow>
               (case py_lt_num razao (fl (12 / 10)) of
                  Inl e \<Rightarrow> Inl e
                | Inr True \<Rightarrow> Inr Medio
                | Inr False \<Rightarrow> Inr Baixo)))"

text \<open>\<open>get_risk_color\<close> and \<open>get_risk_emoji\<close> of \<open>src/utils/helpers.py\<close>: a dictionary lookup with a default.\<close>

definition get_risk_color :: "cell \<Rightarrow> cell" where
  "get_risk_color risk_level =
     (if risk_level = Str Alto then Str ''#FF4B4B''
      else if risk_level = Str Medio then Str ''#FFA500''
      else if risk_level = Str Baixo then Str ''#00CC66''
      else Str ''#CCCCCC'')"

definition get_risk_emoji :: "cell \<Rightarrow> cell" where
  "get_risk_emoji risk_level =
     (if risk_level = Str Alto then Str [CHR 0xF0, CHR 0x9F, CHR 0x94, CHR 0xB4]
      else if risk_level = Str Medio then Str [CHR 0xF0, CHR 0x9F, CHR 0x9F, CHR 0xA1]
      else if risk_level = Str Baixo then Str [CHR 0xF0, CHR 0x9F, CHR 0x9F, CHR 0xA2]
      else Str [CHR 0xE2, CHR 0x9A, CHR 0xAA])"

text \<open>The three row functions of \<open>classify_batch\<close>, in the order the source applies them.\<close>

definition nivel_risco_of :: "row \<Rightarrow> py_error + cell" where
  "nivel_risco_of r =
     (case classify_risk (get r ''estoque_atual'' (PyInt 0)) (get r ''consumo_previsto'' (PyInt 0)) of
        Inl e \<Rightarrow> Inl e
      | Inr l \<Rightarrow> Inr (Str l))"

definition razao_estoque_of :: "row \<Rightarrow> py_error + cell" where
  "razao_estoque_of r =
     (case py_gt_num (get r ''consumo_previsto'' (PyInt 0)) 0 of
        Inl e \<Rightarrow> Inl e
      | Inr False \<Rightarrow> Inr (PyInt 0)
      | Inr True \<Rightarrow>
          (case getitem r ''estoque_atual'' of
             Inl e \<Rightarrow> Inl e
           | Inr a \<Rightarrow>
               (case getitem r ''consumo_previsto'' of
                  Inl e \<Rightarrow> Inl e
                | Inr b \<Rightarrow>
                    (case py_truediv a b of Inl e \<Rightarrow> Inl e | Inr q \<Rightarrow> py_round2 q))))"

definition deficit_of :: "row \<Rightarrow> py_error + cell" where
  "deficit_of r =
     (case py_sub (get r ''consumo_previsto'' (PyInt 0)) (get r ''estoque_atual'' (PyInt 0)) of
        Inl e \<Rightarrow> Inl e
      | Inr x \<Rightarrow> py_max0 x)"

text \<open>\<open>df[c]\<close> read as a column: \<open>KeyError\<close> when the table has no such column.\<close>

definition column :: "frame \<Rightarrow> string \<Rightarrow> py_error + cell list" where
  "column df c = apply_rows (\<lambda>r. getitem r c) (rows df)"

text \<open>
  The five column assignments of \<open>classify_batch\<close>, on the table they are given (the
  copy). An exception of a row function ends the run.
\<close>

definition classify_columns :: "frame \<Rightarrow> py_error + frame" where
  "classify_columns df =
     (case apply_rows nivel_risco_of (rows df) of
        Inl e \<Rightarrow> Inl e
      | Inr v1 \<Rightarrow>
     let df1 = setitem df ''nivel_risco'' v1 in
     (case column df1 ''nivel_risco'' of
        Inl e \<Rightarrow> Inl e
      | Inr c1 \<Rightarrow>
     let df2 = setitem df1 ''cor_risco'' (map get_risk_color c1) in
     (case column df2 ''nivel_risco'' of
        Inl e \<Rightarrow> Inl e
      | Inr c2 \<Rightarrow>
     let df3 = setitem df2 ''emoji_risco'' (map get_risk_emoji c2) in
     (case apply_rows razao_estoque_of (rows df3) of
        Inl e \<Rightarrow> Inl e
      | Inr v4 \<Rightarrow>
     let df4 = setitem df3 ''razao_estoque'' v4 in
     (case apply_rows deficit_of (rows df4) of
        Inl e \<Rightarrow> Inl e
      | Inr v5 \<Rightarrow> Inr (setitem df4 ''deficit'' v5))))))"

text \<open>
  Tables are objects: a store maps references to tables, \<open>next_ref\<close> is the first
  unused reference. \<open>df.copy()\<close> allocates a new table; \<open>classify_batch\<close> assigns its
  columns on the copy and returns the copy's reference. When a row function raises, the
  copy is unreachable and is left as allocated.
\<close>

record store =
  next_ref :: nat
  objs :: "nat \<Rightarrow> frame"

definition df_copy :: "store \<Rightarrow> nat \<Rightarrow> nat \<times> store" where
  "df_copy s a =
     (next_ref s, s\<lparr>next_ref := Suc (next_ref s), objs := (objs s)(next_ref s := objs s a)\<rparr>)"

definition classify_batch :: "store \<Rightarrow> nat \<Rightarrow> (py_error + nat) \<times> store" where
  "classify_batch s a =
     (let (d, s1) = df_copy s a
      in case classify_columns (objs s1 d) of
           Inl e \<Rightarrow> (Inl e, s1)
         | Inr out \<Rightarrow> (Inr d, s1\<lparr>objs := (objs s1)(d := out)\<rparr>))"


section \<open>Notions of the specification\<close>

text \<open>
  The order of the numbers that cells hold: minus infinity, the finite numbers by their
  exact values, plus infinity. NaN and strings are below and above nothing.
\<close>

fun ext :: "cell \<Rightarrow> (nat \<times> real) option" where
  "ext (PyInt i) = Some (1, of_int i)"
| "ext (PyFloat x) = Some (1, x)"
| "ext PInf = Some (2, 0)"
| "ext NInf = Some (0, 0)"
| "ext _ = None"

definition num_less :: "cell \<Rightarrow> cell \<Rightarrow> bool" where
  "num_less a b = (case (ext a, ext b) of (Some p, Some q) \<Rightarrow> p < q | _ \<Rightarrow> False)"

text \<open>A non-negative number: an int or a float that is at least 0, plus infinity included.\<close>

definition nonneg :: "cell \<Rightarrow> bool" where
  "nonneg v = (case ext v of Some p \<Rightarrow> (1, 0) \<le> p | None \<Rightarrow> False)"

text \<open>An int that has a double (its conversion does not overflow); every float has.\<close>

definition fits :: "cell \<Rightarrow> bool" where
  "fits v = (case v of PyInt i \<Rightarrow> \<bar>fl (of_int i)\<bar> < 2 ^ 1024 | _ \<Rightarrow> True)"

text \<open>
  The level of a ratio, in the words of the specification: High below 1.0, Medium from
  1.0 up to but excluding 1.2, Low from 1.2 on; the thresholds are the doubles of the
  source. A ratio that is NaN is none of these and is Low, as in the source.
\<close>

definition level_of :: "cell \<Rightarrow> string" where
  "level_of ratio =
     (if num_less ratio (PyFloat 1) then Alto
      else if num_less ratio (PyFloat (fl (12 / 10))) then Medio
      else Baixo)"

text \<open>
  What \<open>classify_batch\<close> makes of one row: the row with the five risk columns assigned
  from the three row functions.
\<close>

definition classified :: "row \<Rightarrow> row \<Rightarrow> bool" where
  "classified r r' =
     (\<exists>l q x. nivel_risco_of r = Inr l \<and> razao_estoque_of r = Inr q \<and> deficit_of r = Inr x \<and>
        r' = r(''nivel_risco'' \<mapsto> l, ''cor_risco'' \<mapsto> get_risk_color l,
               ''emoji_risco'' \<mapsto> get_risk_emoji l, ''razao_estoque'' \<mapsto> q, ''deficit'' \<mapsto> x))"


text \<open>A table read as its rows of cells, in column order.\<close>

definition cells :: "frame \<Rightarrow> cell option list list" where
  "cells df = map (\<lambda>r. map r (columns df)) (rows df)"

section \<open>A sample table\<close>

text \<open>A table that already has a \<open>deficit\<close> column, in a store of its own.\<close>

definition risk_frame :: frame where
  "risk_frame =
     \<lparr>columns = [''medicamento'', ''estoque_atual'', ''consumo_previsto'', ''deficit''],
      rows = [[''medicamento'' \<mapsto> Str ''A'', ''estoque_atual'' \<mapsto> PyInt 5,
               ''consumo_previsto'' \<mapsto> PyInt 0, ''deficit'' \<mapsto> PyInt 99],
              [''medicamento'' \<mapsto> Str ''B'', ''estoque_atual'' \<mapsto> PyInt 50,
               ''consumo_previsto'' \<mapsto> PyInt 100, ''deficit'' \<mapsto> PyInt 99],
              [''medicamento'' \<mapsto> Str ''C'', ''estoque_atual'' \<mapsto> PyInt 110,
               ''consumo_previsto'' \<mapsto> PyInt 100, ''deficit'' \<mapsto> PyInt 99],
              [''medicamento'' \<mapsto> Str ''D'', ''estoque_atual'' \<mapsto> PyFloat 999,
               ''consumo_previsto'' \<mapsto> PyFloat 1000, ''deficit'' \<mapsto> PyInt 99],
              [''medicamento'' \<mapsto> Str ''E'', ''estoque_atual'' \<mapsto> PyFloat 1000,
               ''consumo_previsto'' \<mapsto> PyFloat 1000, ''deficit'' \<mapsto> PyInt 99],
              [''medicamento'' \<mapsto> Str ''F'', ''estoque_atual'' \<mapsto> PyFloat 1,
               ''consumo_previsto'' \<mapsto> PyFloat 10000000000000000, ''deficit'' \<mapsto> PyInt 99]]\<rparr>"

definition risk_store :: store where
  "risk_store = \<lparr>next_ref = 1, objs = (\<lambda>_. DataFrame0)(0 := risk_frame)\<rparr>"

text \<open>The table \<open>classify_batch\<close> makes of the sample table, and the store after the call.\<close>

definition risk_out :: frame where
  "risk_out = (case classify_columns risk_frame of Inr out \<Rightarrow> out | Inl e \<Rightarrow> DataFrame0)"

definition risk_store' :: store where
  "risk_store' = \<lparr>next_ref = 2, objs = (objs risk_store)(1 := risk_out)\<rparr>"

section \<open>Forecast months (\<open>src/models/predict.py\<close>)\<close>

text \<open>
  A calendar date is a year, a month and a day of the Gregorian calendar.
  \<open>add_days d n\<close> is \<open>d + timedelta(days=n)\<close>. The upper bound of pandas's timestamps
  (the year 2262) is not modelled.
\<close>

type_synonym date = "nat \<times> nat \<times> nat"

definition leap_year :: "nat \<Rightarrow> bool" where
  "leap_year y = (y mod 4 = 0 \<and> (y mod 100 \<noteq> 0 \<or> y mod 400 = 0))"

definition days_in_month :: "nat \<Rightarrow> nat \<Rightarrow> nat" where
  "days_in_month y m =
     (if m = 2 then (if leap_year y then 29 else 28)
      else if m = 4 \<or> m = 6 \<or> m = 9 \<or> m = 11 then 30 else 31)"

fun next_day :: "date \<Rightarrow> date" where
  "next_day (y, m, d) =
     (if d < days_in_month y m then (y, m, Suc d)
      else if m < 12 then (y, Suc m, 1) else (Suc y, 1, 1))"

fun add_days :: "date \<Rightarrow> nat \<Rightarrow> date" where
  "add_days d 0 = d"
| "add_days d (Suc n) = add_days (next_day d) n"

text \<open>\<open>strftime('%Y-%m')\<close> of a date whose year has four digits.\<close>

definition digit_char :: "nat \<Rightarrow> char" where
  "digit_char n = ''0123456789'' ! n"

definition strftime_Y_m :: "date \<Rightarrow> string" where
  "strftime_Y_m dt =
     (case dt of (y, m, d) \<Rightarrow>
        [digit_char (y div 1000 mod 10), digit_char (y div 100 mod 10),
         digit_char (y div 10 mod 10), digit_char (y mod 10), CHR ''-'',
         digit_char (m div 10 mod 10), digit_char (m mod 10)])"

text \<open>\<open>round(x, 0)\<close>: a float rounded to a whole number, a tie to the even one.\<close>

fun py_round0 :: "cell \<Rightarrow> py_error + cell" where
  "py_round0 (PyFloat x) = Inr (PyFloat (fl (of_int (round_half_even x))))"
| "py_round0 (Str s) = Inl TypeError"
| "py_round0 v = Inr v"

text \<open>A record of the table \<open>predict_future\<close> returns.\<close>

record forecast_row =
  fr_medicamento :: string
  fr_data :: string
  fr_consumo_previsto :: cell
  fr_tipo :: string

definition predicao :: string where
  "predicao = [CHR ''p'', CHR ''r'', CHR ''e'', CHR ''d'', CHR ''i'', CHR 0xC3, CHR 0xA7,
               CHR 0xC3, CHR 0xA3, CHR ''o'']"

text \<open>
  The loop of \<open>predict_future\<close> over \<open>range(1, n_months + 1)\<close>. The history table with
  its features is a value of any type \<open>'h\<close>; what the loop does with it goes through
  three parameters, taken as functions that return: \<open>future_features\<close> is
  \<open>_create_future_features\<close>, \<open>predict\<close> is the first prediction of the fitted model,
  and \<open>append_row\<close> appends the predicted row and recomputes the features
  (\<open>pd.concat\<close> and \<open>create_features\<close>). The date of step \<open>i\<close> is the last
  historical date plus \<open>30 * i\<close> days.
\<close>

fun predict_loop ::
  "('h \<Rightarrow> date \<Rightarrow> 'f) \<Rightarrow> ('f \<Rightarrow> cell) \<Rightarrow> ('h \<Rightarrow> 'f \<Rightarrow> cell \<Rightarrow> string \<Rightarrow> 'h) \<Rightarrow>
   string \<Rightarrow> date \<Rightarrow> nat list \<Rightarrow> 'h \<Rightarrow> py_error + forecast_row list" where
  "predict_loop future_features predict append_row medicamento last_date [] med_data = Inr []"
| "predict_loop future_features predict append_row medicamento last_date (i # steps) med_data =
     (let future_date = add_days last_date (30 * i);
          future_date_str = strftime_Y_m future_date;
          features = future_features med_data future_date
      in case py_max0 (predict features) of
           Inl e \<Rightarrow> Inl e
         | Inr pred_value \<Rightarrow>
             (case py_round0 pred_value of
                Inl e \<Rightarrow> Inl e
              | Inr rounded \<Rightarrow>
                  (case predict_loop future_features predict append_row medicamento last_date steps
                          (append_row med_data features pred_value future_date_str) of
                     Inl e \<Rightarrow> Inl e
                   | Inr rest \<Rightarrow>
                       Inr (\<lparr>fr_medicamento = medicamento, fr_data = future_date_str,
                              fr_consumo_previsto = rounded, fr_tipo = predicao\<rparr> # rest))))"

text \<open>The month token of a row, for a row whose \<open>data\<close> is a string.\<close>

definition token_of :: "row \<Rightarrow> string" where
  "token_of r = (case r ''data'' of Some (Str s) \<Rightarrow> s | _ \<Rightarrow> [])"

definition is_Str :: "cell \<Rightarrow> bool" where
  "is_Str c = (case c of Str s \<Rightarrow> True | _ \<Rightarrow> False)"

text \<open>
  \<open>predict_future(df, medicamento, n_months)\<close>. The rows of the medication are
  selected and sorted by their month token (ordering or appending to a cell that is not
  a string is a \<open>TypeError\<close>); the last token, with \<open>-01\<close> appended, is read by
  \<open>pd.to_datetime\<close>, a parameter; \<open>prepare\<close> makes the history value of the sorted
  rows. No row of the medication gives the empty table.
\<close>

definition predict_future ::
  "(string \<Rightarrow> py_error + date) \<Rightarrow> (row list \<Rightarrow> 'h) \<Rightarrow>
   ('h \<Rightarrow> date \<Rightarrow> 'f) \<Rightarrow> ('f \<Rightarrow> cell) \<Rightarrow> ('h \<Rightarrow> 'f \<Rightarrow> cell \<Rightarrow> string \<Rightarrow> 'h) \<Rightarrow>
   frame \<Rightarrow> string \<Rightarrow> nat \<Rightarrow> py_error + forecast_row list" where
  "predict_future to_datetime prepare future_features predict append_row df medicamento n_months =
     (case column df ''medicamento'' of
        Inl e \<Rightarrow> Inl e
      | Inr names \<Rightarrow>
          let med_rows = map fst (filter (\<lambda>(r, n). n = Str medicamento) (zip (rows df) names))
          in if med_rows = [] then Inr []
             else case column \<lparr>columns = columns df, rows = med_rows\<rparr> ''data'' of
                 Inl e \<Rightarrow> Inl e
               | Inr ds \<Rightarrow>
                   if \<not> list_all is_Str ds then Inl TypeError
                   else let med_data = sort_key token_of med_rows
                        in case to_datetime (token_of (last med_data) @ ''-01'') of
                             Inl e \<Rightarrow> Inl e
                           | Inr last_date \<Rightarrow>
                               predict_loop future_features predict append_row medicamento last_date
                                 [1 ..< Suc n_months] (prepare med_data))"

text \<open>A history of one medication with the single month 2023-01.\<close>

definition history_frame :: frame where
  "history_frame =
     \<lparr>columns = [''medicamento'', ''data'', ''consumo'', ''estoque_atual''],
      rows = [[''medicamento'' \<mapsto> Str ''A'', ''data'' \<mapsto> Str ''2023-01'',
               ''consumo'' \<mapsto> PyInt 10, ''estoque_atual'' \<mapsto> PyInt 5]]\<rparr>"

section \<open>Cleaning (\<open>src/preprocessing/cleaning.py\<close>, \<open>src/utils/helpers.py\<close>)\<close>

text \<open>
  The cleaner calls functions of Python and pandas that are not code of the repository.
  Those whose result depends on more than the shape of their argument are parameters,
  collected in a record: \<open>astype_str\<close> is \<open>str\<close> of a cell, \<open>str_strip\<close> and \<open>str_upper\<close>
  are the string methods, \<open>to_numeric\<close> is \<open>pd.to_numeric(errors='coerce')\<close> on a
  column of strings (it returns as many numbers, NaN where a string is no number),
  \<open>series_mean\<close> and \<open>series_std\<close> are the mean and the sample standard deviation of
  a column, and \<open>strftime_Y\<close> is \<open>strftime('%Y')\<close> of a year (the C library decides how
  a year below 1000 is padded). The strings of the date functions are ASCII: a digit is
  one of the bytes \<open>0\<close> to \<open>9\<close>.
\<close>

record pylib =
  astype_str :: "cell \<Rightarrow> string"
  str_strip :: "string \<Rightarrow> string"
  str_upper :: "string \<Rightarrow> string"
  to_numeric :: "string list \<Rightarrow> cell list"
  series_mean :: "cell list \<Rightarrow> cell"
  series_std :: "cell list \<Rightarrow> cell"
  strftime_Y :: "nat \<Rightarrow> string"

text \<open>\<open>DataFrame.empty\<close>: an axis of length zero.\<close>

definition empty :: "frame \<Rightarrow> bool" where
  "empty df = (columns df = [] \<or> rows df = [])"

definition required_columns :: "string list" where
  "required_columns = [''medicamento'', ''data'', ''consumo'', ''estoque_atual'']"

text \<open>\<open>validate_dataframe\<close> (the missing columns are printed, not returned).\<close>

definition validate_dataframe :: "frame \<Rightarrow> string list \<Rightarrow> bool" where
  "validate_dataframe df required =
     (if empty df then False
      else if filter (\<lambda>c. c \<notin> set (columns df)) required \<noteq> [] then False
      else True)"

text \<open>\<open>_validate_structure\<close>: the message of the \<open>ValueError\<close> lists the required columns.\<close>

definition validate_structure :: "frame \<Rightarrow> py_error + frame" where
  "validate_structure df =
     (if \<not> validate_dataframe df required_columns then Inl (ValueError required_columns)
      else Inr df)"

text \<open>
  \<open>drop_duplicates(subset=['medicamento', 'data'], keep='first')\<close>: a row goes when an
  earlier row has the same two values. Two numbers are the same when they are equal,
  two missing values are the same.
\<close>

definition same_value :: "cell \<Rightarrow> cell \<Rightarrow> bool" where
  "same_value a b =
     (case (a, b) of
        (Str s, Str t) \<Rightarrow> s = t
      | (NaN, NaN) \<Rightarrow> True
      | _ \<Rightarrow> (case (ext a, ext b) of (Some p, Some q) \<Rightarrow> p = q | _ \<Rightarrow> False))"

definition same_key :: "row \<Rightarrow> row \<Rightarrow> bool" where
  "same_key r r' =
     (same_value (get r ''medicamento'' NaN) (get r' ''medicamento'' NaN) \<and>
      same_value (get r ''data'' NaN) (get r' ''data'' NaN))"

fun drop_duplicates :: "row list \<Rightarrow> row list \<Rightarrow> row list" where
  "drop_duplicates seen [] = []"
| "drop_duplicates seen (r # rs) =
     (if list_ex (same_key r) seen then drop_duplicates seen rs
      else r # drop_duplicates (r # seen) rs)"

definition remove_duplicates :: "frame \<Rightarrow> frame" where
  "remove_duplicates df = df\<lparr>rows := drop_duplicates [] (rows df)\<rparr>"

text \<open>
  \<open>df[c] = f(df[c])\<close> for a function of the whole column. A row has a cell for every
  column of its table.
\<close>

definition map_column :: "string \<Rightarrow> (cell list \<Rightarrow> cell list) \<Rightarrow> frame \<Rightarrow> frame" where
  "map_column c f df = setitem df c (f (map (\<lambda>r. get r c NaN) (rows df)))"

text \<open>
  \<open>fillna(0)\<close> of a column: a missing value becomes the number 0, the float 0.0 in a
  column of floats (the dtype \<open>float64\<close>), the int 0 in a column of objects.
\<close>

definition is_float :: "cell \<Rightarrow> bool" where
  "is_float v = (case v of PyInt i \<Rightarrow> False | Str s \<Rightarrow> False | _ \<Rightarrow> True)"

definition fillna0 :: "cell list \<Rightarrow> cell list" where
  "fillna0 vs =
     (let zero = (if list_all is_float vs then PyFloat 0 else PyInt 0)
      in map (\<lambda>v. if v = NaN then zero else v) vs)"

text \<open>\<open>_handle_missing_values\<close>.\<close>

definition handle_missing_values :: "frame \<Rightarrow> frame" where
  "handle_missing_values df =
     (let df1 = df\<lparr>rows := filter (\<lambda>r. get r ''medicamento'' NaN \<noteq> NaN \<and> get r ''data'' NaN \<noteq> NaN)
                              (rows df)\<rparr>;
          df2 = map_column ''consumo'' fillna0 df1
      in map_column ''estoque_atual'' fillna0 df2)"

text \<open>\<open>clean_numeric_column\<close>, and \<open>clip(lower=0)\<close> of a number.\<close>

definition replace_comma :: "string \<Rightarrow> string" where
  "replace_comma s = map (\<lambda>c. if c = CHR '','' then CHR ''.'' else c) s"

definition clean_numeric_column :: "pylib \<Rightarrow> cell list \<Rightarrow> cell list" where
  "clean_numeric_column lib series =
     fillna0 (to_numeric lib (map (\<lambda>v. str_strip lib (replace_comma (astype_str lib v))) series))"

definition clip0 :: "cell \<Rightarrow> cell" where
  "clip0 v =
     (case v of
        PyInt i \<Rightarrow> PyInt (max 0 i)
      | PyFloat x \<Rightarrow> PyFloat (max 0 x)
      | NInf \<Rightarrow> PyFloat 0
      | _ \<Rightarrow> v)"

text \<open>\<open>_clean_columns\<close>.\<close>

definition clean_columns :: "pylib \<Rightarrow> frame \<Rightarrow> frame" where
  "clean_columns lib df =
     (let df1 = map_column ''medicamento''
                  (map (\<lambda>v. Str (str_upper lib (str_strip lib (astype_str lib v))))) df;
          df2 = map_column ''consumo'' (clean_numeric_column lib) df1;
          df3 = map_column ''estoque_atual'' (clean_numeric_column lib) df2;
          df4 = map_column ''consumo'' (map clip0) df3
      in map_column ''estoque_atual'' (map clip0) df4)"

text \<open>
  \<open>datetime.strptime\<close> for the five formats of \<open>format_date\<close>. A format is a list of
  directives and literal characters. The regular expression of a directive tries its
  alternatives in order: \<open>%Y\<close> is four digits; \<open>%m\<close> is 10 to 12, or 01 to 09, or one
  digit 1 to 9; \<open>%d\<close> is 30 or 31, or 10 to 29, or 01 to 09, or one digit 1 to 9, or a
  space and one digit 1 to 9. \<open>parses\<close> lists the ways a format matches a prefix of the
  string, the first match of the regular expression first. \<open>strptime\<close> takes the first
  one; it fails (\<open>ValueError\<close>) when there is none, when part of the string is left,
  and when the year, month and day are no date.
\<close>

datatype directive = Dir_Y | Dir_m | Dir_d | Lit char

definition is_digit :: "char \<Rightarrow> bool" where
  "is_digit c = (c \<in> set ''0123456789'')"

definition digit_val :: "char \<Rightarrow> nat" where
  "digit_val c = of_char c - 48"

definition in_range :: "char \<Rightarrow> char \<Rightarrow> char \<Rightarrow> bool" where
  "in_range lo hi c = (of_char lo \<le> (of_char c :: nat) \<and> (of_char c :: nat) \<le> of_char hi)"

fun two :: "(char \<Rightarrow> bool) \<Rightarrow> (char \<Rightarrow> bool) \<Rightarrow> string \<Rightarrow> (nat \<times> string) list" where
  "two p q (a # b # s) = (if p a \<and> q b then [(10 * digit_val a + digit_val b, s)] else [])"
| "two p q s = []"

fun one :: "(char \<Rightarrow> bool) \<Rightarrow> string \<Rightarrow> (nat \<times> string) list" where
  "one p (a # s) = (if p a then [(digit_val a, s)] else [])"
| "one p s = []"

fun field :: "directive \<Rightarrow> string \<Rightarrow> (nat \<times> string) list" where
  "field Dir_Y (a # b # c # d # s) =
     (if is_digit a \<and> is_digit b \<and> is_digit c \<and> is_digit d
      then [(1000 * digit_val a + 100 * digit_val b + 10 * digit_val c + digit_val d, s)]
      else [])"
| "field Dir_Y s = []"
| "field Dir_m s =
     two (\<lambda>c. c = CHR ''1'') (in_range CHR ''0'' CHR ''2'') s @
     two (\<lambda>c. c = CHR ''0'') (in_range CHR ''1'' CHR ''9'') s @
     one (in_range CHR ''1'' CHR ''9'') s"
| "field Dir_d s =
     two (\<lambda>c. c = CHR ''3'') (in_range CHR ''0'' CHR ''1'') s @
     two (in_range CHR ''1'' CHR ''2'') is_digit s @
     two (\<lambda>c. c = CHR ''0'') (in_range CHR ''1'' CHR ''9'') s @
     one (in_range CHR ''1'' CHR ''9'') s @
     (case s of a # s' \<Rightarrow> if a = CHR '' '' then one (in_range CHR ''1'' CHR ''9'') s' else [] | [] \<Rightarrow> [])"
| "field (Lit c) (a # s) = (if a = c then [(0, s)] else [])"
| "field (Lit c) [] = []"

fun parses :: "directive list \<Rightarrow> string \<Rightarrow> ((directive \<times> nat) list \<times> string) list" where
  "parses [] s = [([], s)]"
| "parses (f # fs) s =
     concat (map (\<lambda>(v, r). map (\<lambda>(vs, r'). ((f, v) # vs, r')) (parses fs r)) (field f s))"

definition value_of :: "directive \<Rightarrow> nat \<Rightarrow> (directive \<times> nat) list \<Rightarrow> nat" where
  "value_of f dflt vs = (case map_of vs f of Some v \<Rightarrow> v | None \<Rightarrow> dflt)"

definition strptime :: "string \<Rightarrow> directive list \<Rightarrow> date option" where
  "strptime s fmt =
     (case parses fmt s of
        [] \<Rightarrow> None
      | (vs, rest) # others \<Rightarrow>
          if rest \<noteq> [] then None
          else let y = value_of Dir_Y 1900 vs; m = value_of Dir_m 1 vs; d = value_of Dir_d 1 vs
               in if 1 \<le> y \<and> d \<le> days_in_month y m then Some (y, m, d) else None)"

definition date_formats :: "directive list list" where
  "date_formats =
     [[Dir_Y, Lit CHR ''-'', Dir_m],
      [Dir_Y, Lit CHR ''/'', Dir_m],
      [Dir_Y, Dir_m],
      [Dir_d, Lit CHR ''/'', Dir_m, Lit CHR ''/'', Dir_Y],
      [Dir_Y, Lit CHR ''-'', Dir_m, Lit CHR ''-'', Dir_d]]"

text \<open>\<open>strftime('%Y-%m')\<close>: the year as the library prints it, the month with two digits.\<close>

definition strftime_month :: "pylib \<Rightarrow> date \<Rightarrow> string" where
  "strftime_month lib dt =
     (case dt of (y, m, d) \<Rightarrow>
        strftime_Y lib y @ [CHR ''-'', digit_char (m div 10 mod 10), digit_char (m mod 10)])"

text \<open>
  \<open>format_date\<close>: a string is formatted with the first format that reads it and
  returned as it is when none does; a cell that is no string is returned as it is.
\<close>

fun first_format :: "pylib \<Rightarrow> string \<Rightarrow> directive list list \<Rightarrow> string" where
  "first_format lib s [] = s"
| "first_format lib s (fmt # fmts) =
     (case strptime s fmt of
        Some dt \<Rightarrow> strftime_month lib dt
      | None \<Rightarrow> first_format lib s fmts)"

definition format_date :: "pylib \<Rightarrow> cell \<Rightarrow> cell" where
  "format_date lib v = (case v of Str s \<Rightarrow> Str (first_format lib s date_formats) | _ \<Rightarrow> v)"

text \<open>
  \<open>str.match(r'^\d{4}-\d{2}$', na=False)\<close> on one cell: the \<open>$\<close> also matches before a
  last newline; a cell that is no string gives \<open>False\<close>.
\<close>

definition month_shape :: "string \<Rightarrow> bool" where
  "month_shape s =
     (case s of
        [a, b, c, d, h, m, n] \<Rightarrow>
          is_digit a \<and> is_digit b \<and> is_digit c \<and> is_digit d \<and> h = CHR ''-'' \<and> is_digit m \<and> is_digit n
      | [a, b, c, d, h, m, n, e] \<Rightarrow>
          is_digit a \<and> is_digit b \<and> is_digit c \<and> is_digit d \<and> h = CHR ''-'' \<and> is_digit m \<and> is_digit n \<and>
          e = CHR 0x0A
      | _ \<Rightarrow> False)"

definition str_match :: "cell \<Rightarrow> bool" where
  "str_match v = (case v of Str s \<Rightarrow> month_shape s | _ \<Rightarrow> False)"

text \<open>
  \<open>_normalize_dates\<close>. The \<open>.str\<close> accessor raises \<open>AttributeError\<close> on a column that
  holds numbers only; an empty column is taken to have the dtype \<open>object\<close>, on which it
  does not raise.
\<close>

definition normalize_dates :: "pylib \<Rightarrow> frame \<Rightarrow> py_error + frame" where
  "normalize_dates lib df =
     (let df1 = map_column ''data'' (map (format_date lib)) df;
          ds = map (\<lambda>r. get r ''data'' NaN) (rows df1)
      in if ds \<noteq> [] \<and> \<not> list_ex is_Str ds then Inl AttributeError
         else Inr (df1\<lparr>rows := filter (\<lambda>r. str_match (get r ''data'' NaN)) (rows df1)\<rparr>))"

text \<open>
  Arithmetic and comparison of the outlier limit, on floats: \<open>3.0 * std\<close>,
  \<open>mean + ...\<close> and \<open>value <= limit\<close>. A column of ints is compared as doubles.
\<close>

fun float_mul :: "cell \<Rightarrow> cell \<Rightarrow> cell" where
  "float_mul (PyFloat x) (PyFloat y) = to_float (x * y)"
| "float_mul (PyFloat x) PInf = (if 0 < x then PInf else if x < 0 then NInf else NaN)"
| "float_mul (PyFloat x) NInf = (if 0 < x then NInf else if x < 0 then PInf else NaN)"
| "float_mul PInf (PyFloat y) = (if 0 < y then PInf else if y < 0 then NInf else NaN)"
| "float_mul NInf (PyFloat y) = (if 0 < y then NInf else if y < 0 then PInf else NaN)"
| "float_mul PInf PInf = PInf"
| "float_mul NInf NInf = PInf"
| "float_mul PInf NInf = NInf"
| "float_mul NInf PInf = NInf"
| "float_mul a b = NaN"

fun float_add :: "cell \<Rightarrow> cell \<Rightarrow> cell" where
  "float_add (PyFloat x) (PyFloat y) = to_float (x + y)"
| "float_add (PyFloat x) PInf = PInf"
| "float_add (PyFloat x) NInf = NInf"
| "float_add PInf (PyFloat y) = PInf"
| "float_add NInf (PyFloat y) = NInf"
| "float_add PInf PInf = PInf"
| "float_add NInf NInf = NInf"
| "float_add a b = NaN"

definition upper_limit :: "cell \<Rightarrow> cell \<Rightarrow> py_error + cell" where
  "upper_limit mean std =
     (case as_float mean of
        Inl e \<Rightarrow> Inl e
      | Inr m \<Rightarrow> (case as_float std of Inl e \<Rightarrow> Inl e | Inr s \<Rightarrow> Inr (float_add m (float_mul (PyFloat 3) s))))"

definition le_limit :: "cell \<Rightarrow> cell \<Rightarrow> bool" where
  "le_limit limit v =
     (case as_float v of
        Inr x \<Rightarrow> x = limit \<and> x \<noteq> NaN \<or> num_less x limit
      | Inl e \<Rightarrow> False)"

text \<open>One turn of the loop of \<open>_remove_outliers\<close>, for the column \<open>col\<close>.\<close>

definition remove_outliers_col :: "pylib \<Rightarrow> string \<Rightarrow> frame \<Rightarrow> py_error + frame" where
  "remove_outliers_col lib col df =
     (if col \<notin> set (columns df) then Inr df
      else let values = map (\<lambda>r. get r col NaN) (rows df);
               mean = series_mean lib values;
               std = series_std lib values
           in case py_gt_num std 0 of
                Inl e \<Rightarrow> Inl e
              | Inr False \<Rightarrow> Inr df
              | Inr True \<Rightarrow>
                  (case upper_limit mean std of
                     Inl e \<Rightarrow> Inl e
                   | Inr limit \<Rightarrow>
                       Inr (df\<lparr>rows := filter (\<lambda>r. le_limit limit (get r col NaN)) (rows df)\<rparr>)))"

definition remove_outliers :: "pylib \<Rightarrow> frame \<Rightarrow> py_error + frame" where
  "remove_outliers lib df =
     (case remove_outliers_col lib ''consumo'' df of
        Inl e \<Rightarrow> Inl e
      | Inr df1 \<Rightarrow> remove_outliers_col lib ''estoque_atual'' df1)"

text \<open>\<open>_sort_data\<close>: a stable sort by name and month, both strings by then.\<close>

definition name_of :: "row \<Rightarrow> string" where
  "name_of r = (case r ''medicamento'' of Some (Str s) \<Rightarrow> s | _ \<Rightarrow> [])"

definition sort_data :: "frame \<Rightarrow> frame" where
  "sort_data df = df\<lparr>rows := sort_key (\<lambda>r. (name_of r, token_of r)) (rows df)\<rparr>"

text \<open>\<open>DataCleaner.clean\<close>.\<close>

definition clean :: "pylib \<Rightarrow> frame \<Rightarrow> py_error + frame" where
  "clean lib df =
     (if empty df then Inr DataFrame0
      else case validate_structure df of
          Inl e \<Rightarrow> Inl e
        | Inr df1 \<Rightarrow>
            (case normalize_dates lib
                    (clean_columns lib (handle_missing_values (remove_duplicates df1))) of
               Inl e \<Rightarrow> Inl e
             | Inr df5 \<Rightarrow>
                 (case remove_outliers lib df5 of
                    Inl e \<Rightarrow> Inl e
                  | Inr df6 \<Rightarrow> Inr (sort_data df6))))"


text \<open>
  Three input tables: a month that is out of range; the same medication and month
  written in two date formats; a month column of numbers, as \<open>pd.read_csv\<close> makes of
  the tokens \<open>202401\<close>.
\<close>

definition bad_month_frame :: frame where
  "bad_month_frame =
     \<lparr>columns = required_columns,
      rows = [[''medicamento'' \<mapsto> Str ''A'', ''data'' \<mapsto> Str ''2024-13'',
               ''consumo'' \<mapsto> PyInt 10, ''estoque_atual'' \<mapsto> PyInt 5]]\<rparr>"


definition numeric_month_frame :: frame where
  "numeric_month_frame =
     \<lparr>columns = required_columns,
      rows = [[''medicamento'' \<mapsto> Str ''A'', ''data'' \<mapsto> PyInt 202401,
               ''consumo'' \<mapsto> PyInt 10, ''estoque_atual'' \<mapsto> PyInt 5]]\<rparr>"

text \<open>A library for the instances: just enough of Python for the tables above.\<close>

definition sample_lib :: pylib where
  "sample_lib =
     \<lparr>astype_str = (\<lambda>v. case v of Str s \<Rightarrow> s | PyInt i \<Rightarrow> (if i = 10 then ''10'' else ''5'') | _ \<Rightarrow> ''nan''),
      str_strip = (\<lambda>s. s),
      str_upper = (\<lambda>s. s),
      to_numeric = map (\<lambda>s. if s = ''10'' then PyInt 10 else PyInt 5),
      series_mean = (\<lambda>vs. case vs of [] \<Rightarrow> NaN | v # vs' \<Rightarrow> v),
      series_std = (\<lambda>vs. if length vs < 2 then NaN else PyFloat 0),
      strftime_Y = (\<lambda>y. [digit_char (y div 1000 mod 10), digit_char (y div 100 mod 10),
                         digit_char (y div 10 mod 10), digit_char (y mod 10)])\<rparr>"

section \<open>Rounding to a double\<close>

lemma round_half_even_of_int: "round_half_even (of_int n) = n"
  by (simp add: round_half_even_def)

lemma round_half_even_bounds: "\<lfloor>y\<rfloor> \<le> round_half_even y \<and> round_half_even y \<le> \<lfloor>y\<rfloor> + 1"
  by (simp add: round_half_even_def Let_def)

lemma round_half_even_mono:
  assumes "x \<le> y"
  shows "round_half_even x \<le> round_half_even y"
proof -
  have fg: "\<lfloor>x\<rfloor> \<le> \<lfloor>y\<rfloor>" using assms by (rule floor_mono)
  show ?thesis
  proof (cases "\<lfloor>x\<rfloor> = \<lfloor>y\<rfloor>")
    case True
    with assms show ?thesis
      by (simp add: round_half_even_def Let_def)
  next
    case False
    with fg have "\<lfloor>x\<rfloor> + 1 \<le> \<lfloor>y\<rfloor>" by simp
    with round_half_even_bounds [of x] round_half_even_bounds [of y] show ?thesis by linarith
  qed
qed

lemma round_half_even_minus: "round_half_even (- y) = - round_half_even y"
proof (cases "y = of_int \<lfloor>y\<rfloor>")
  case True
  then obtain n where "y = of_int n" ..
  then show ?thesis
    using round_half_even_of_int [of n] round_half_even_of_int [of "- n"] by simp
next
  case False
  then have f: "\<lfloor>- y\<rfloor> = - \<lfloor>y\<rfloor> - 1"
    using ceiling_altdef [of y] by (simp add: ceiling_def)
  show ?thesis
    unfolding round_half_even_def Let_def f by auto
qed

lemma floor_log2_iff:
  assumes "0 < x"
  shows "\<lfloor>log 2 x\<rfloor> = k \<longleftrightarrow> 2 powi k \<le> x \<and> x < 2 powi (k + 1)"
proof -
  have "(2::real) powr real_of_int k = 2 powi k"
    by (rule powr_real_of_int') simp_all
  moreover have "(2::real) powr real_of_int (k + 1) = 2 powi (k + 1)"
    by (rule powr_real_of_int') simp_all
  ultimately show ?thesis
    using floor_log_eq_powr_iff [OF assms, of 2 k] by simp
qed

lemma fexp_eq:
  assumes "2 powi e \<le> \<bar>x\<bar>" and "\<bar>x\<bar> < 2 powi (e + 1)"
  shows "fexp x = max (e - 52) (- 1074)"
proof -
  have "(0::real) < 2 powi e" by simp
  with assms(1) have pos: "0 < \<bar>x\<bar>" by linarith
  have "\<lfloor>log 2 \<bar>x\<bar>\<rfloor> = e"
    using assms floor_log2_iff [OF pos, of e] by simp
  then show ?thesis by (simp add: fexp_def)
qed

lemma fl_eq:
  assumes "2 powi e \<le> \<bar>x\<bar>" and "\<bar>x\<bar> < 2 powi (e + 1)" and "k = max (e - 52) (- 1074)"
  shows "fl x = of_int (round_half_even (x / 2 powi k)) * 2 powi k"
  using fexp_eq [OF assms(1,2)] assms(3) by (simp add: fl_def)

lemma fl_0: "fl 0 = 0"
  by (simp add: fl_def round_half_even_def)

lemma fl_minus: "fl (- x) = - fl x"
  by (simp add: fl_def fexp_def round_half_even_minus)

lemma fexp_pos:
  assumes "0 < x"
  shows "x < 2 powi (fexp x + 53)" and "- 1074 < fexp x \<Longrightarrow> 2 powi (fexp x + 52) \<le> x"
proof -
  define k where "k = \<lfloor>log 2 x\<rfloor>"
  have b: "2 powi k \<le> x" "x < 2 powi (k + 1)"
    using floor_log2_iff [OF assms, of k] by (simp_all add: k_def)
  have fe: "fexp x = max (k - 52) (- 1074)"
    using assms by (simp add: fexp_def k_def)
  have "(2::real) powi (k + 1) \<le> 2 powi (fexp x + 53)"
    by (rule power_int_increasing) (simp_all add: fe)
  with b(2) show "x < 2 powi (fexp x + 53)" by linarith
  assume "- 1074 < fexp x"
  with fe have "fexp x + 52 = k" by simp
  with b(1) show "2 powi (fexp x + 52) \<le> x" by simp
qed

lemma fl_pos_bounds:
  assumes "0 < x"
  shows "fl x \<le> 2 powi (fexp x + 53)" and "- 1074 < fexp x \<Longrightarrow> 2 powi (fexp x + 52) \<le> fl x"
proof -
  define s :: real where "s = 2 powi fexp x"
  have s: "0 < s" by (simp add: s_def)
  have p53: "(2::real) powi (fexp x + 53) = s * 2 ^ 53"
    by (simp add: s_def power_int_add)
  have p52: "(2::real) powi (fexp x + 52) = s * 2 ^ 52"
    by (simp add: s_def power_int_add)
  from fexp_pos(1) [OF assms] have "x / s \<le> 2 ^ 53"
    using s by (simp add: p53 field_simps)
  then have "round_half_even (x / s) \<le> round_half_even (of_int (2 ^ 53))"
    by (intro round_half_even_mono) simp
  then have "round_half_even (x / s) \<le> 2 ^ 53"
    by (simp only: round_half_even_of_int)
  then have "real_of_int (round_half_even (x / s)) \<le> 2 ^ 53"
    by (metis of_int_le_iff of_int_numeral of_int_power)
  then show "fl x \<le> 2 powi (fexp x + 53)"
    using s by (simp add: fl_def p53 s_def [symmetric] mult.commute)
  assume "- 1074 < fexp x"
  from fexp_pos(2) [OF assms this] have "2 ^ 52 \<le> x / s"
    using s by (simp add: p52 field_simps)
  then have "round_half_even (of_int (2 ^ 52)) \<le> round_half_even (x / s)"
    by (intro round_half_even_mono) simp
  then have "2 ^ 52 \<le> round_half_even (x / s)"
    by (simp only: round_half_even_of_int)
  then have "2 ^ 52 \<le> real_of_int (round_half_even (x / s))"
    by (metis of_int_le_iff of_int_numeral of_int_power)
  then show "2 powi (fexp x + 52) \<le> fl x"
    using s by (simp add: fl_def p52 s_def [symmetric] mult.commute)
qed

lemma fl_nonneg: "0 \<le> x \<Longrightarrow> 0 \<le> fl x"
  using round_half_even_mono [of 0 "x / 2 powi fexp x"] round_half_even_of_int [of 0]
  by (simp add: fl_def)

lemma fl_mono_pos:
  assumes "0 < x" and "x \<le> y"
  shows "fl x \<le> fl y"
proof -
  from assms have y: "0 < y" by simp
  have "log 2 x \<le> log 2 y" using assms by simp
  then have "\<lfloor>log 2 x\<rfloor> \<le> \<lfloor>log 2 y\<rfloor>" by (rule floor_mono)
  then have ab: "fexp x \<le> fexp y"
    using assms y by (simp add: fexp_def)
  show ?thesis
  proof (cases "fexp x = fexp y")
    case True
    have "x / 2 powi fexp y \<le> y / 2 powi fexp y"
      using assms(2) by (simp add: divide_right_mono)
    from round_half_even_mono [OF this] show ?thesis
      by (simp add: fl_def True)
  next
    case False
    with ab have lt: "fexp x < fexp y" by simp
    have "- 1074 \<le> fexp x" by (simp add: fexp_def)
    with lt have "- 1074 < fexp y" by simp
    from fl_pos_bounds(2) [OF y this] have "2 powi (fexp y + 52) \<le> fl y" .
    moreover have "(2::real) powi (fexp x + 53) \<le> 2 powi (fexp y + 52)"
      by (rule power_int_increasing) (use lt in simp_all)
    moreover note fl_pos_bounds(1) [OF assms(1)]
    ultimately show ?thesis by linarith
  qed
qed

lemma fl_mono:
  assumes "x \<le> y"
  shows "fl x \<le> fl y"
proof -
  consider "0 < x" | "x \<le> 0" "0 \<le> y" | "y < 0" by linarith
  then show ?thesis
  proof cases
    case 1
    then show ?thesis using assms by (rule fl_mono_pos)
  next
    case 2
    have "fl x \<le> 0" using fl_nonneg [of "- x"] 2(1) by (simp add: fl_minus)
    moreover have "0 \<le> fl y" using 2(2) by (rule fl_nonneg)
    ultimately show ?thesis by simp
  next
    case 3
    then have "fl (- y) \<le> fl (- x)" using assms by (intro fl_mono_pos) simp_all
    then show ?thesis by (simp add: fl_minus)
  qed
qed

lemma fl_abs: "\<bar>fl x\<bar> = fl \<bar>x\<bar>"
proof (cases "0 \<le> x")
  case True
  then show ?thesis using fl_nonneg [of x] by simp
next
  case False
  then have "0 \<le> fl (- x)" by (intro fl_nonneg) simp
  with False show ?thesis by (simp add: fl_minus)
qed

lemma fl_1: "fl 1 = 1"
  using fl_eq [of 0 1 "- 52"] by (simp add: round_half_even_def power_int_minus)

lemma fl_half: "fl (1 / 2) = 1 / 2"
  using fl_eq [of "- 1" "1 / 2" "- 53"] by (simp add: round_half_even_def power_int_minus)

lemma fl_12: "fl (6 / 5) = 5404319552844595 / 4503599627370496"
  using fl_eq [of 0 "6 / 5" "- 52"] by (simp add: round_half_even_def power_int_minus)

lemma fl_11: "fl (11 / 10) = 4953959590107546 / 4503599627370496"
  using fl_eq [of 0 "11 / 10" "- 52"] by (simp add: round_half_even_def power_int_minus)

lemma fl_999: "fl (999 / 1000) = 8998192055486251 / 9007199254740992"
  using fl_eq [of "- 1" "999 / 1000" "- 53"] by (simp add: round_half_even_def power_int_minus)

lemma fl_near_12: "fl (8399999999999999 / 7000000000000000) = 5404319552844595 / 4503599627370496"
  using fl_eq [of 0 "8399999999999999 / 7000000000000000" "- 52"]
  by (simp add: round_half_even_def power_int_minus)

lemma fl_near_1: "fl (99999999999999999 / 100000000000000000) = 1"
  using fl_eq [of "- 1" "99999999999999999 / 100000000000000000" "- 53"]
  by (simp add: round_half_even_def power_int_minus)

lemma fl_of_int_ge_1: "1 \<le> i \<Longrightarrow> 1 \<le> fl (of_int i)"
  using fl_mono [of 1 "of_int i"] by (simp add: fl_1)

lemma fl_of_int_eq_0: "fl (of_int i) = 0 \<longleftrightarrow> i = 0"
proof
  assume z: "fl (of_int i) = 0"
  show "i = 0"
  proof (rule ccontr)
    assume "i \<noteq> 0"
    then consider "1 \<le> i" | "1 \<le> - i" by linarith
    then show False
    proof cases
      case 1
      from fl_of_int_ge_1 [OF this] z show False by simp
    next
      case 2
      from fl_of_int_ge_1 [OF this] z show False by (simp add: fl_minus)
    qed
  qed
qed (simp add: fl_0)

lemma fl_power2:
  assumes "- 1074 \<le> n"
  shows "fl (2 powi n) = 2 powi n"
proof -
  define k where "k = max (n - 52) (- 1074)"
  have kn: "0 \<le> n - k" using assms by (simp add: k_def)
  have "(2::real) powi n = 2 powi (n - k) * 2 powi k"
    by (simp flip: power_int_add)
  also have "(2::real) powi (n - k) = of_int (2 ^ nat (n - k))"
    using kn by (simp add: power_int_def)
  finally have q: "(2::real) powi n / 2 powi k = of_int (2 ^ nat (n - k))"
    and p: "(2::real) powi n = of_int (2 ^ nat (n - k)) * 2 powi k"
    by simp_all
  have "fl (2 powi n) = of_int (round_half_even (2 powi n / 2 powi k)) * 2 powi k"
    by (rule fl_eq [of n]) (simp_all add: k_def power_int_add)
  also have "\<dots> = of_int (2 ^ nat (n - k)) * 2 powi k"
    unfolding q round_half_even_of_int ..
  finally show ?thesis using p by simp
qed

lemma fits_PyInt:
  assumes "\<bar>i\<bar> \<le> 2 ^ 1023"
  shows "fits (PyInt i)"
proof -
  from assms have "\<bar>real_of_int i\<bar> \<le> 2 powi 1023"
    by (metis of_int_abs of_int_le_iff of_int_numeral of_int_power power_int_numeral)
  then have "fl \<bar>real_of_int i\<bar> \<le> fl (2 powi 1023)" by (rule fl_mono)
  also have "\<dots> = 2 powi 1023" by (rule fl_power2) simp
  also have "\<dots> < (2::real) powi 1024" by (rule power_int_strict_increasing) simp_all
  finally show ?thesis by (simp add: fits_def fl_abs)
qed

section \<open>Properties of Python's operators\<close>

lemma py_truediv_not_Str: "py_truediv a b = Inr q \<Longrightarrow> q \<noteq> Str s"
  by (cases a; cases b) (auto simp: to_float_def Let_def split: if_splits)

lemma py_lt_num_less: "(\<And>s. q \<noteq> Str s) \<Longrightarrow> py_lt_num q c = Inr (num_less q (PyFloat c))"
  by (cases q) (auto simp: num_less_def)

lemma classify_risk_level:
  assumes "\<not> py_eq_num f 0" and "py_truediv s f = Inr q"
  shows "classify_risk s f = Inr (level_of q)"
proof -
  have "py_lt_num q c = Inr (num_less q (PyFloat c))" for c
    by (rule py_lt_num_less) (rule py_truediv_not_Str [OF assms(2)])
  with assms show ?thesis
    by (simp add: classify_risk_def level_of_def)
qed

lemma int_quotient_fits:
  assumes "\<bar>fl (of_int i)\<bar> < 2 ^ 1024" and "j \<noteq> 0"
  shows "\<not> 2 ^ 1024 \<le> \<bar>fl (of_int i / of_int j)\<bar>"
proof -
  from assms(2) have j: "1 \<le> \<bar>real_of_int j\<bar>" by linarith
  then have "\<bar>real_of_int i\<bar> * 1 \<le> \<bar>real_of_int i\<bar> * \<bar>real_of_int j\<bar>"
    by (intro mult_left_mono) simp_all
  with j have "\<bar>real_of_int i / real_of_int j\<bar> \<le> \<bar>real_of_int i\<bar>"
    by (simp add: field_simps)
  then have "fl \<bar>real_of_int i / real_of_int j\<bar> \<le> fl \<bar>real_of_int i\<bar>" by (rule fl_mono)
  with assms(1) show ?thesis by (simp add: fl_abs)
qed

lemma py_truediv_returns:
  assumes "nonneg s" and "nonneg f" and "fits s" and "fits f" and "\<not> py_eq_num f 0"
  shows "\<exists>q. py_truediv s f = Inr q"
proof (cases s)
  case si: (PyInt i)
  show ?thesis
  proof (cases f)
    case (PyInt j)
    with si assms int_quotient_fits [of i j] show ?thesis
      by (simp add: fits_def Let_def)
  next
    case (PyFloat y)
    with si assms show ?thesis by (simp add: fits_def Let_def)
  next
    case PInf
    with si assms show ?thesis by (simp add: fits_def Let_def)
  qed (use assms in \<open>simp_all add: nonneg_def\<close>)
next
  case sf: (PyFloat x)
  show ?thesis
  proof (cases f)
    case (PyInt j)
    with sf assms show ?thesis by (simp add: fits_def Let_def fl_of_int_eq_0)
  qed (use sf assms in \<open>simp_all add: nonneg_def\<close>)
next
  case sp: PInf
  show ?thesis
  proof (cases f)
    case (PyInt j)
    with sp assms show ?thesis by (simp add: fits_def Let_def fl_of_int_eq_0)
  qed (use sp assms in \<open>simp_all add: nonneg_def\<close>)
qed (use assms in \<open>simp_all add: nonneg_def\<close>)

section \<open>Properties of the risk classifier\<close>

text \<open>
  C1. For non-negative stock and forecast, given as floats or as ints that have a
  double, \<open>classify_risk\<close> depends on its two arguments only and does not raise: a
  zero forecast gives Low (Baixo); otherwise the ratio stock / forecast is computed and
  the result is the level of that ratio: High (Alto) below 1.0, Medium from 1.0 up to
  but excluding 1.2, Low from 1.2 on. The ratio is the double that Python's division
  returns and the thresholds are the doubles 1.0 and 1.2.
\<close>

theorem classify_risk_thresholds:
  assumes "nonneg s" and "nonneg f" and "fits s" and "fits f"
  shows "(py_eq_num f 0 \<longrightarrow> classify_risk s f = Inr Baixo) \<and>
         (\<not> py_eq_num f 0 \<longrightarrow>
            (\<exists>ratio. py_truediv s f = Inr ratio \<and> classify_risk s f = Inr (level_of ratio)))"
proof (intro conjI impI)
  assume "py_eq_num f 0"
  then show "classify_risk s f = Inr Baixo" by (simp add: classify_risk_def)
next
  assume n: "\<not> py_eq_num f 0"
  from py_truediv_returns [OF assms n] obtain q where q: "py_truediv s f = Inr q" ..
  from classify_risk_level [OF n q] q
  show "\<exists>ratio. py_truediv s f = Inr ratio \<and> classify_risk s f = Inr (level_of ratio)" by blast
qed

text \<open>
  Stock 1200 against forecast 1000 has the ratio 1.2 (the double) and is Low; 1100 against
  1000 is Medium; 500 against 1000 is High. Next to the thresholds the rounding of the
  division decides: 8399999999999999 / 7000000000000000 is below 12/10 and rounds to the
  double 1.2, which is Low, and 99999999999999999 / 100000000000000000 rounds to 1.0,
  which is Medium.
\<close>

theorem classify_risk_thresholds_witness:
  "py_truediv (PyInt 1200) (PyInt 1000) = Inr (PyFloat (fl (12 / 10))) \<and>
   classify_risk (PyInt 1200) (PyInt 1000) = Inr Baixo \<and>
   classify_risk (PyInt 1100) (PyInt 1000) = Inr Medio \<and>
   classify_risk (PyFloat 500) (PyFloat 1000) = Inr Alto \<and>
   classify_risk (PyInt 7) (PyInt 0) = Inr Baixo \<and>
   classify_risk (PyInt 8399999999999999) (PyInt 7000000000000000) = Inr Baixo \<and>
   classify_risk (PyInt 99999999999999999) (PyInt 100000000000000000) = Inr Medio"
proof -
  have d1: "py_truediv (PyInt 1200) (PyInt 1000) = Inr (PyFloat (fl (12 / 10)))"
    by (simp add: Let_def fl_12)
  have d2: "py_truediv (PyInt 1100) (PyInt 1000) = Inr (PyFloat (fl (11 / 10)))"
    by (simp add: Let_def fl_11)
  have d3: "py_truediv (PyFloat 500) (PyFloat 1000) = Inr (PyFloat (1 / 2))"
    by (simp add: Let_def to_float_def fl_half)
  have d4: "py_truediv (PyInt 8399999999999999) (PyInt 7000000000000000) = Inr (PyFloat (fl (12 / 10)))"
    by (simp add: Let_def fl_12 fl_near_12)
  have d5: "py_truediv (PyInt 99999999999999999) (PyInt 100000000000000000) = Inr (PyFloat 1)"
    by (simp add: Let_def fl_near_1)
  have l1: "level_of (PyFloat (fl (12 / 10))) = Baixo"
    by (simp add: level_of_def num_less_def fl_12)
  have l2: "level_of (PyFloat (fl (11 / 10))) = Medio"
    by (simp add: level_of_def num_less_def fl_12 fl_11)
  have l3: "level_of (PyFloat (1 / 2)) = Alto"
    by (simp add: level_of_def num_less_def)
  have l5: "level_of (PyFloat 1) = Medio"
    by (simp add: level_of_def num_less_def fl_12)
  have use: "classify_risk s f = Inr l"
    if "(py_eq_num f 0 \<longrightarrow> classify_risk s f = Inr Baixo) \<and>
        (\<not> py_eq_num f 0 \<longrightarrow>
           (\<exists>ratio. py_truediv s f = Inr ratio \<and> classify_risk s f = Inr (level_of ratio)))"
      and "\<not> py_eq_num f 0" and "py_truediv s f = Inr q" and "level_of q = l" for s f q l
    using that by auto
  have n: "nonneg (PyInt 1200)" "nonneg (PyInt 1100)" "nonneg (PyInt 1000)" "nonneg (PyFloat 500)"
    "nonneg (PyFloat 1000)" "nonneg (PyInt 7)" "nonneg (PyInt 0)"
    "nonneg (PyInt 8399999999999999)" "nonneg (PyInt 7000000000000000)"
    "nonneg (PyInt 99999999999999999)" "nonneg (PyInt 100000000000000000)"
    by (simp_all add: nonneg_def)
  have f: "fits (PyInt 1200)" "fits (PyInt 1100)" "fits (PyInt 1000)" "fits (PyFloat 500)"
    "fits (PyFloat 1000)" "fits (PyInt 7)" "fits (PyInt 0)"
    "fits (PyInt 8399999999999999)" "fits (PyInt 7000000000000000)"
    "fits (PyInt 99999999999999999)" "fits (PyInt 100000000000000000)"
    by (simp_all add: fits_PyInt) (simp add: fits_def)+
  have "classify_risk (PyInt 1200) (PyInt 1000) = Inr Baixo"
    by (rule use [OF classify_risk_thresholds [OF n(1) n(3) f(1) f(3)] _ d1 l1]) simp
  moreover have "classify_risk (PyInt 1100) (PyInt 1000) = Inr Medio"
    by (rule use [OF classify_risk_thresholds [OF n(2) n(3) f(2) f(3)] _ d2 l2]) simp
  moreover have "classify_risk (PyFloat 500) (PyFloat 1000) = Inr Alto"
    by (rule use [OF classify_risk_thresholds [OF n(4) n(5) f(4) f(5)] _ d3 l3]) simp
  moreover have "classify_risk (PyInt 7) (PyInt 0) = Inr Baixo"
    using classify_risk_thresholds [OF n(6) n(7) f(6) f(7)] by simp
  moreover have "classify_risk (PyInt 8399999999999999) (PyInt 7000000000000000) = Inr Baixo"
    by (rule use [OF classify_risk_thresholds [OF n(8) n(9) f(8) f(9)] _ d4 l1]) simp
  moreover have "classify_risk (PyInt 99999999999999999) (PyInt 100000000000000000) = Inr Medio"
    by (rule use [OF classify_risk_thresholds [OF n(10) n(11) f(10) f(11)] _ d5 l5]) simp
  ultimately show ?thesis using d1 by (intro conjI)
qed

section \<open>Rows of a classified table\<close>

lemma apply_rows_all2: "apply_rows f rs = Inr vs \<Longrightarrow> list_all2 (\<lambda>r v. f r = Inr v) rs vs"
  by (induction rs arbitrary: vs) (auto split: sum.splits)

lemma setitem_all2:
  "list_all2 P (rows df) vs \<Longrightarrow>
   list_all2 (\<lambda>r r'. \<exists>v. P r v \<and> r' = r(c \<mapsto> v)) (rows df) (rows (setitem df c vs))"
  by (auto simp: setitem_def list_all2_conv_all_nth)

lemma column_all2:
  "column df c = Inr vs \<Longrightarrow> list_all2 (\<lambda>r w. \<exists>v. r c = Some v \<and> w = g v) (rows df) (map g vs)"
proof -
  assume "column df c = Inr vs"
  then have "list_all2 (\<lambda>r v. getitem r c = Inr v) (rows df) vs"
    unfolding column_def by (rule apply_rows_all2)
  then show ?thesis
    by (auto simp: list_all2_conv_all_nth getitem_def split: option.splits)
qed

lemma nivel_risco_of_upd:
  "c \<noteq> ''estoque_atual'' \<Longrightarrow> c \<noteq> ''consumo_previsto'' \<Longrightarrow> nivel_risco_of (r(c \<mapsto> v)) = nivel_risco_of r"
  by (simp add: nivel_risco_of_def get_def)

lemma razao_estoque_of_upd:
  "c \<noteq> ''estoque_atual'' \<Longrightarrow> c \<noteq> ''consumo_previsto'' \<Longrightarrow> razao_estoque_of (r(c \<mapsto> v)) = razao_estoque_of r"
  by (simp add: razao_estoque_of_def get_def getitem_def split: sum.splits bool.splits)

lemma deficit_of_upd:
  "c \<noteq> ''estoque_atual'' \<Longrightarrow> c \<noteq> ''consumo_previsto'' \<Longrightarrow> deficit_of (r(c \<mapsto> v)) = deficit_of r"
  by (simp add: deficit_of_def get_def)

lemma classify_columns_rows:
  assumes "classify_columns df = Inr out"
  shows "list_all2 classified (rows df) (rows out)"
proof -
  from assms obtain v1 where v1: "apply_rows nivel_risco_of (rows df) = Inr v1"
    by (auto simp: classify_columns_def split: sum.splits)
  define df1 where "df1 = setitem df ''nivel_risco'' v1"
  from assms v1 obtain c1 where c1: "column df1 ''nivel_risco'' = Inr c1"
    by (auto simp: classify_columns_def df1_def Let_def split: sum.splits)
  define df2 where "df2 = setitem df1 ''cor_risco'' (map get_risk_color c1)"
  from assms v1 c1 obtain c2 where c2: "column df2 ''nivel_risco'' = Inr c2"
    by (auto simp: classify_columns_def df1_def df2_def Let_def split: sum.splits)
  define df3 where "df3 = setitem df2 ''emoji_risco'' (map get_risk_emoji c2)"
  from assms v1 c1 c2 obtain v4 where v4: "apply_rows razao_estoque_of (rows df3) = Inr v4"
    by (auto simp: classify_columns_def df1_def df2_def df3_def Let_def split: sum.splits)
  define df4 where "df4 = setitem df3 ''razao_estoque'' v4"
  from assms v1 c1 c2 v4 obtain v5 where v5: "apply_rows deficit_of (rows df4) = Inr v5"
    and out: "out = setitem df4 ''deficit'' v5"
    by (auto simp: classify_columns_def df1_def df2_def df3_def df4_def Let_def split: sum.splits)
  have s1: "list_all2 (\<lambda>r r'. \<exists>v. nivel_risco_of r = Inr v \<and> r' = r(''nivel_risco'' \<mapsto> v))
              (rows df) (rows df1)"
    unfolding df1_def by (rule setitem_all2) (rule apply_rows_all2 [OF v1])
  have s2: "list_all2 (\<lambda>r r'. \<exists>w. (\<exists>v. r ''nivel_risco'' = Some v \<and> w = get_risk_color v) \<and>
              r' = r(''cor_risco'' \<mapsto> w)) (rows df1) (rows df2)"
    unfolding df2_def by (rule setitem_all2) (rule column_all2 [OF c1])
  have s3: "list_all2 (\<lambda>r r'. \<exists>w. (\<exists>v. r ''nivel_risco'' = Some v \<and> w = get_risk_emoji v) \<and>
              r' = r(''emoji_risco'' \<mapsto> w)) (rows df2) (rows df3)"
    unfolding df3_def by (rule setitem_all2) (rule column_all2 [OF c2])
  have s4: "list_all2 (\<lambda>r r'. \<exists>v. razao_estoque_of r = Inr v \<and> r' = r(''razao_estoque'' \<mapsto> v))
              (rows df3) (rows df4)"
    unfolding df4_def by (rule setitem_all2) (rule apply_rows_all2 [OF v4])
  have s5: "list_all2 (\<lambda>r r'. \<exists>v. deficit_of r = Inr v \<and> r' = r(''deficit'' \<mapsto> v))
              (rows df4) (rows out)"
    unfolding out by (rule setitem_all2) (rule apply_rows_all2 [OF v5])
  have t2: "list_all2 (\<lambda>r r'. \<exists>l. nivel_risco_of r = Inr l \<and>
              r' = r(''nivel_risco'' \<mapsto> l, ''cor_risco'' \<mapsto> get_risk_color l)) (rows df) (rows df2)"
    by (rule list_all2_trans [OF _ s1 s2]) auto
  have t3: "list_all2 (\<lambda>r r'. \<exists>l. nivel_risco_of r = Inr l \<and>
              r' = r(''nivel_risco'' \<mapsto> l, ''cor_risco'' \<mapsto> get_risk_color l,
                     ''emoji_risco'' \<mapsto> get_risk_emoji l)) (rows df) (rows df3)"
    by (rule list_all2_trans [OF _ t2 s3]) auto
  have t4: "list_all2 (\<lambda>r r'. \<exists>l q. nivel_risco_of r = Inr l \<and> razao_estoque_of r = Inr q \<and>
              r' = r(''nivel_risco'' \<mapsto> l, ''cor_risco'' \<mapsto> get_risk_color l,
                     ''emoji_risco'' \<mapsto> get_risk_emoji l, ''razao_estoque'' \<mapsto> q)) (rows df) (rows df4)"
    by (rule list_all2_trans [OF _ t3 s4]) (auto simp: razao_estoque_of_upd)
  show ?thesis
    unfolding classified_def
    by (rule list_all2_trans [OF _ t4 s5]) (auto simp: deficit_of_upd)
qed



lemma classify_batch_Inr:
  assumes "classify_batch s a = (Inr d, s')"
  shows "d = next_ref s"
    and "\<exists>out. classify_columns (objs s a) = Inr out \<and> objs s' = (objs s)(next_ref s := out)"
  using assms by (auto simp: classify_batch_def df_copy_def split: sum.splits)

lemma classify_batch_rows:
  assumes "classify_batch s a = (Inr d, s')"
  shows "list_all2 classified (rows (objs s a)) (rows (objs s' d))"
proof -
  from classify_batch_Inr [OF assms] obtain out where
    "d = next_ref s" "classify_columns (objs s a) = Inr out" "objs s' = (objs s)(next_ref s := out)"
    by blast
  then show ?thesis using classify_columns_rows by simp
qed

lemma classified_source:
  assumes "list_all2 classified rs rs'" and "r' \<in> set rs'"
  shows "\<exists>r\<in>set rs. classified r r'"
  using assms by (metis in_set_conv_nth list_all2_conv_all_nth)

lemma classified_get:
  assumes "classified r r'" and "k = ''consumo_previsto'' \<or> k = ''estoque_atual''"
  shows "r' k = r k"
  using assms by (auto simp: classified_def)


lemma py_max0_nonneg: "py_max0 x = Inr v \<Longrightarrow> nonneg v"
  by (cases x) (auto simp: py_max0_def nonneg_def split: if_splits)

lemma py_max0_to_float:
  "py_max0 (to_float x) = Inr (if 0 < fl x then to_float x else PyInt 0)"
  by (simp add: py_max0_def to_float_def Let_def)

lemma deficit_of_Inr:
  assumes "deficit_of r = Inr v"
  shows "nonneg v"
    and "\<exists>x. py_sub (get r ''consumo_previsto'' (PyInt 0)) (get r ''estoque_atual'' (PyInt 0)) = Inr x \<and>
              py_max0 x = Inr v"
    and "get r ''consumo_previsto'' (PyInt 0) = PyInt p \<Longrightarrow> get r ''estoque_atual'' (PyInt 0) = PyInt e \<Longrightarrow>
           v = PyInt (max 0 (p - e))"
    and "get r ''consumo_previsto'' (PyInt 0) = PyFloat x \<Longrightarrow> get r ''estoque_atual'' (PyInt 0) = PyFloat y \<Longrightarrow>
           v = (if 0 < fl (x - y) then to_float (x - y) else PyInt 0)"
proof -
  from assms obtain w where
    w: "py_sub (get r ''consumo_previsto'' (PyInt 0)) (get r ''estoque_atual'' (PyInt 0)) = Inr w"
    and v: "py_max0 w = Inr v"
    by (auto simp: deficit_of_def split: sum.splits)
  from v show "nonneg v" by (rule py_max0_nonneg)
  from w v show "\<exists>x. py_sub (get r ''consumo_previsto'' (PyInt 0)) (get r ''estoque_atual'' (PyInt 0)) = Inr x \<and>
              py_max0 x = Inr v" by blast
  show "v = PyInt (max 0 (p - e))"
    if "get r ''consumo_previsto'' (PyInt 0) = PyInt p" "get r ''estoque_atual'' (PyInt 0) = PyInt e"
    using that w v by (auto simp: py_max0_def max_def)
  show "v = (if 0 < fl (x - y) then to_float (x - y) else PyInt 0)"
    if "get r ''consumo_previsto'' (PyInt 0) = PyFloat x" "get r ''estoque_atual'' (PyInt 0) = PyFloat y"
  proof -
    from that w have "w = to_float (x - y)" by simp
    with v show ?thesis by (simp only: py_max0_to_float sum.inject)
  qed
qed

text \<open>
  C7. In every row of the table \<open>classify_batch\<close> returns, the \<open>deficit\<close> field is what
  Python's \<open>max(0, forecast - stock)\<close> gives on the row's own forecast and stock (an
  absent column counting as 0), and it is never negative. The subtraction is Python's:
  exact on two ints, so the field is the int max(0, forecast - stock); rounded to a
  double on two floats, so the field is the rounded difference when that is positive
  (plus infinity when it overflows) and the int 0 otherwise. A missing value gives 0.
\<close>

theorem classify_batch_deficit:
  assumes "classify_batch s a = (Inr d, s')" and "r \<in> set (rows (objs s' d))"
  shows "\<exists>v. r ''deficit'' = Some v \<and> nonneg v \<and>
           (\<exists>x. py_sub (get r ''consumo_previsto'' (PyInt 0)) (get r ''estoque_atual'' (PyInt 0)) = Inr x \<and>
                py_max0 x = Inr v) \<and>
           (\<forall>p e. get r ''consumo_previsto'' (PyInt 0) = PyInt p \<and>
                  get r ''estoque_atual'' (PyInt 0) = PyInt e \<longrightarrow> v = PyInt (max 0 (p - e))) \<and>
           (\<forall>x y. get r ''consumo_previsto'' (PyInt 0) = PyFloat x \<and>
                  get r ''estoque_atual'' (PyInt 0) = PyFloat y \<longrightarrow>
                  v = (if 0 < fl (x - y) then to_float (x - y) else PyInt 0))"
proof -
  from classified_source [OF classify_batch_rows [OF assms(1)] assms(2)]
  obtain r0 where r0: "classified r0 r" by blast
  then obtain v where v: "deficit_of r0 = Inr v" and d: "r ''deficit'' = Some v"
    by (auto simp: classified_def)
  have g: "get r0 k w = get r k w" if "k = ''consumo_previsto'' \<or> k = ''estoque_atual''" for k w
    using classified_get [OF r0 that] by (simp add: get_def)
  note f = deficit_of_Inr [OF v, unfolded g [of "''consumo_previsto''", simplified]
      g [of "''estoque_atual''", simplified]]
  from d f(1) f(2) f(3) f(4) show ?thesis by blast
qed

section \<open>The sample table\<close>

lemma fl_big: "fl 9999999999999999 = 10000000000000000"
  using fl_eq [of 53 9999999999999999 1] by (simp add: round_half_even_def)

lemma fl_small: "fl (1 / 10000000000000000) = 8112963841460668 / 2 ^ 106"
  using fl_eq [of "- 54" "1 / 10000000000000000" "- 106"]
  by (simp add: round_half_even_def power_int_minus)

lemma risk_frame_classified:
  "\<exists>out. classify_columns risk_frame = Inr out \<and>
     columns out = [''medicamento'', ''estoque_atual'', ''consumo_previsto'', ''deficit'',
                    ''nivel_risco'', ''cor_risco'', ''emoji_risco'', ''razao_estoque''] \<and>
     cells out =
       [[Some (Str ''A''), Some (PyInt 5), Some (PyInt 0), Some (PyInt 0),
         Some (Str Baixo), Some (Str ''#00CC66''), Some (Str [CHR 0xF0, CHR 0x9F, CHR 0x9F, CHR 0xA2]), Some (PyInt 0)],
        [Some (Str ''B''), Some (PyInt 50), Some (PyInt 100), Some (PyInt 50),
         Some (Str Alto), Some (Str ''#FF4B4B''), Some (Str [CHR 0xF0, CHR 0x9F, CHR 0x94, CHR 0xB4]), Some (PyFloat (1 / 2))],
        [Some (Str ''C''), Some (PyInt 110), Some (PyInt 100), Some (PyInt 0),
         Some (Str Medio), Some (Str ''#FFA500''), Some (Str [CHR 0xF0, CHR 0x9F, CHR 0x9F, CHR 0xA1]), Some (PyFloat (fl (11 / 10)))],
        [Some (Str ''D''), Some (PyFloat 999), Some (PyFloat 1000), Some (PyFloat 1),
         Some (Str Alto), Some (Str ''#FF4B4B''), Some (Str [CHR 0xF0, CHR 0x9F, CHR 0x94, CHR 0xB4]), Some (PyFloat 1)],
        [Some (Str ''E''), Some (PyFloat 1000), Some (PyFloat 1000), Some (PyInt 0),
         Some (Str Medio), Some (Str ''#FFA500''), Some (Str [CHR 0xF0, CHR 0x9F, CHR 0x9F, CHR 0xA1]), Some (PyFloat 1)],
        [Some (Str ''F''), Some (PyFloat 1), Some (PyFloat 10000000000000000),
         Some (PyFloat 10000000000000000),
         Some (Str Alto), Some (Str ''#FF4B4B''), Some (Str [CHR 0xF0, CHR 0x9F, CHR 0x94, CHR 0xB4]), Some (PyFloat 0)]]"
  by (simp add: classify_columns_def risk_frame_def nivel_risco_of_def classify_risk_def
      get_def getitem_def setitem_def column_def razao_estoque_of_def deficit_of_def
      py_max0_def to_float_def round2_def round_half_even_def Let_def
      fl_0 fl_1 fl_half fl_11 fl_12 fl_999 fl_big fl_small
      cells_def get_risk_color_def get_risk_emoji_def Alto_def Medio_def Baixo_def)

lemma risk_out_eval:
  "classify_columns risk_frame = Inr risk_out"
  "columns risk_out = [''medicamento'', ''estoque_atual'', ''consumo_previsto'', ''deficit'',
                    ''nivel_risco'', ''cor_risco'', ''emoji_risco'', ''razao_estoque'']"
  "cells risk_out =
       [[Some (Str ''A''), Some (PyInt 5), Some (PyInt 0), Some (PyInt 0),
         Some (Str Baixo), Some (Str ''#00CC66''), Some (Str [CHR 0xF0, CHR 0x9F, CHR 0x9F, CHR 0xA2]), Some (PyInt 0)],
        [Some (Str ''B''), Some (PyInt 50), Some (PyInt 100), Some (PyInt 50),
         Some (Str Alto), Some (Str ''#FF4B4B''), Some (Str [CHR 0xF0, CHR 0x9F, CHR 0x94, CHR 0xB4]), Some (PyFloat (1 / 2))],
        [Some (Str ''C''), Some (PyInt 110), Some (PyInt 100), Some (PyInt 0),
         Some (Str Medio), Some (Str ''#FFA500''), Some (Str [CHR 0xF0, CHR 0x9F, CHR 0x9F, CHR 0xA1]), Some (PyFloat (fl (11 / 10)))],
        [Some (Str ''D''), Some (PyFloat 999), Some (PyFloat 1000), Some (PyFloat 1),
         Some (Str Alto), Some (Str ''#FF4B4B''), Some (Str [CHR 0xF0, CHR 0x9F, CHR 0x94, CHR 0xB4]), Some (PyFloat 1)],
        [Some (Str ''E''), Some (PyFloat 1000), Some (PyFloat 1000), Some (PyInt 0),
         Some (Str Medio), Some (Str ''#FFA500''), Some (Str [CHR 0xF0, CHR 0x9F, CHR 0x9F, CHR 0xA1]), Some (PyFloat 1)],
        [Some (Str ''F''), Some (PyFloat 1), Some (PyFloat 10000000000000000),
         Some (PyFloat 10000000000000000),
         Some (Str Alto), Some (Str ''#FF4B4B''), Some (Str [CHR 0xF0, CHR 0x9F, CHR 0x94, CHR 0xB4]), Some (PyFloat 0)]]"
  using risk_frame_classified unfolding risk_out_def by auto

lemma cells_nth:
  "cells df = cs \<Longrightarrow> i < length cs \<Longrightarrow> j < length (columns df) \<Longrightarrow>
   i < length (rows df) \<and> (rows df ! i) (columns df ! j) = cs ! i ! j"
  by (auto simp: cells_def)

lemma risk_out_rows:
  "length (rows risk_out) = 6"
  "(rows risk_out ! 0) ''consumo_previsto'' = Some (PyInt 0)"
  "(rows risk_out ! 0) ''nivel_risco'' = Some (Str Baixo)"
  "(rows risk_out ! 0) ''razao_estoque'' = Some (PyInt 0)"
  "(rows risk_out ! 1) ''medicamento'' = Some (Str ''B'')"
  "(rows risk_out ! 1) ''estoque_atual'' = Some (PyInt 50)"
  "(rows risk_out ! 1) ''consumo_previsto'' = Some (PyInt 100)"
  "(rows risk_out ! 1) ''nivel_risco'' = Some (Str Alto)"
  "(rows risk_out ! 1) ''razao_estoque'' = Some (PyFloat (1 / 2))"
  "(rows risk_out ! 1) ''deficit'' = Some (PyInt 50)"
  "(rows risk_out ! 2) ''estoque_atual'' = Some (PyInt 110)"
  "(rows risk_out ! 2) ''consumo_previsto'' = Some (PyInt 100)"
  "(rows risk_out ! 2) ''nivel_risco'' = Some (Str Medio)"
  "(rows risk_out ! 2) ''razao_estoque'' = Some (PyFloat (fl (11 / 10)))"
  "(rows risk_out ! 3) ''consumo_previsto'' = Some (PyFloat 1000)"
  "(rows risk_out ! 3) ''nivel_risco'' = Some (Str Alto)"
  "(rows risk_out ! 3) ''razao_estoque'' = Some (PyFloat 1)"
  "(rows risk_out ! 4) ''consumo_previsto'' = Some (PyFloat 1000)"
  "(rows risk_out ! 4) ''nivel_risco'' = Some (Str Medio)"
  "(rows risk_out ! 4) ''razao_estoque'' = Some (PyFloat 1)"
  "(rows risk_out ! 5) ''estoque_atual'' = Some (PyFloat 1)"
  "(rows risk_out ! 5) ''consumo_previsto'' = Some (PyFloat 10000000000000000)"
  "(rows risk_out ! 5) ''deficit'' = Some (PyFloat 10000000000000000)"
proof -
  note c = cells_nth [OF risk_out_eval(3), unfolded risk_out_eval(2)]
  show "length (rows risk_out) = 6"
    using risk_out_eval(3) by (simp add: cells_def map_eq_Cons_conv) auto
  show "(rows risk_out ! 0) ''consumo_previsto'' = Some (PyInt 0)" using c [of 0 2] by simp
  show "(rows risk_out ! 0) ''nivel_risco'' = Some (Str Baixo)" using c [of 0 4] by simp
  show "(rows risk_out ! 0) ''razao_estoque'' = Some (PyInt 0)" using c [of 0 7] by simp
  show "(rows risk_out ! 1) ''medicamento'' = Some (Str ''B'')" using c [of 1 0] by simp
  show "(rows risk_out ! 1) ''estoque_atual'' = Some (PyInt 50)" using c [of 1 1] by simp
  show "(rows risk_out ! 1) ''consumo_previsto'' = Some (PyInt 100)" using c [of 1 2] by simp
  show "(rows risk_out ! 1) ''nivel_risco'' = Some (Str Alto)" using c [of 1 4] by simp
  show "(rows risk_out ! 1) ''razao_estoque'' = Some (PyFloat (1 / 2))" using c [of 1 7] by simp
  show "(rows risk_out ! 1) ''deficit'' = Some (PyInt 50)" using c [of 1 3] by simp
  show "(rows risk_out ! 2) ''estoque_atual'' = Some (PyInt 110)" using c [of 2 1] by simp
  show "(rows risk_out ! 2) ''consumo_previsto'' = Some (PyInt 100)" using c [of 2 2] by simp
  show "(rows risk_out ! 2) ''nivel_risco'' = Some (Str Medio)" using c [of 2 4] by simp
  show "(rows risk_out ! 2) ''razao_estoque'' = Some (PyFloat (fl (11 / 10)))" using c [of 2 7] by simp
  show "(rows risk_out ! 3) ''consumo_previsto'' = Some (PyFloat 1000)" using c [of 3 2] by simp
  show "(rows risk_out ! 3) ''nivel_risco'' = Some (Str Alto)" using c [of 3 4] by simp
  show "(rows risk_out ! 3) ''razao_estoque'' = Some (PyFloat 1)" using c [of 3 7] by simp
  show "(rows risk_out ! 4) ''consumo_previsto'' = Some (PyFloat 1000)" using c [of 4 2] by simp
  show "(rows risk_out ! 4) ''nivel_risco'' = Some (Str Medio)" using c [of 4 4] by simp
  show "(rows risk_out ! 4) ''razao_estoque'' = Some (PyFloat 1)" using c [of 4 7] by simp
  show "(rows risk_out ! 5) ''estoque_atual'' = Some (PyFloat 1)" using c [of 5 1] by simp
  show "(rows risk_out ! 5) ''consumo_previsto'' = Some (PyFloat 10000000000000000)" using c [of 5 2] by simp
  show "(rows risk_out ! 5) ''deficit'' = Some (PyFloat 10000000000000000)" using c [of 5 3] by simp
qed

lemma risk_store_run: "classify_batch risk_store 0 = (Inr 1, risk_store')"
  using risk_out_eval(1)
  by (simp add: classify_batch_def df_copy_def risk_store_def risk_store'_def)

lemma risk_store'_out: "objs risk_store' 1 = risk_out"
  by (simp add: risk_store'_def)


text \<open>
  On the sample table: the second row (ints, stock 50, forecast 100) gets the deficit 50;
  the last row (floats, stock 1, forecast 10000000000000000) gets the deficit
  10000000000000000, the double that the subtraction rounds 9999999999999999 to.
\<close>

theorem classify_batch_deficit_witness:
  "classify_batch risk_store 0 = (Inr 1, risk_store') \<and>
   (rows (objs risk_store' 1) ! 1) ''deficit'' = Some (PyInt 50) \<and>
   (rows (objs risk_store' 1) ! 5) ''deficit'' = Some (PyFloat 10000000000000000)"
proof -
  let ?r = "rows (objs risk_store' 1) ! 1"
  let ?t = "rows (objs risk_store' 1) ! 5"
  have mem: "?r \<in> set (rows (objs risk_store' 1))" "?t \<in> set (rows (objs risk_store' 1))"
    unfolding risk_store'_out by (rule nth_mem, simp add: risk_out_rows(1))+
  from classify_batch_deficit [OF risk_store_run mem(1)] obtain v where
    v: "?r ''deficit'' = Some v" and
    f: "\<forall>p e. get ?r ''consumo_previsto'' (PyInt 0) = PyInt p \<and>
               get ?r ''estoque_atual'' (PyInt 0) = PyInt e \<longrightarrow> v = PyInt (max 0 (p - e))"
    by blast
  have "get ?r ''consumo_previsto'' (PyInt 0) = PyInt 100"
    and "get ?r ''estoque_atual'' (PyInt 0) = PyInt 50"
    unfolding get_def risk_store'_out by (simp_all only: risk_out_rows option.case)
  with f have "v = PyInt (max 0 (100 - 50))" by blast
  with v have r: "?r ''deficit'' = Some (PyInt 50)" by simp
  from classify_batch_deficit [OF risk_store_run mem(2)] obtain w where
    w: "?t ''deficit'' = Some w" and
    g: "\<forall>x y. get ?t ''consumo_previsto'' (PyInt 0) = PyFloat x \<and>
               get ?t ''estoque_atual'' (PyInt 0) = PyFloat y \<longrightarrow>
               w = (if 0 < fl (x - y) then to_float (x - y) else PyInt 0)"
    by blast
  have "get ?t ''consumo_previsto'' (PyInt 0) = PyFloat 10000000000000000"
    and "get ?t ''estoque_atual'' (PyInt 0) = PyFloat 1"
    unfolding get_def risk_store'_out by (simp_all only: risk_out_rows option.case)
  with g have "w = (if 0 < fl (10000000000000000 - 1) then to_float (10000000000000000 - 1) else PyInt 0)"
    by blast
  then have "w = PyFloat 10000000000000000"
    by (simp add: to_float_def fl_big)
  with w have t: "?t ''deficit'' = Some (PyFloat 10000000000000000)" by simp
  from risk_store_run r t show ?thesis by (intro conjI)
qed

section \<open>Levels and emitted ratios\<close>












section \<open>The frame of \<open>classify_batch\<close>\<close>




section \<open>The months of a forecast\<close>

lemma add_days_numeral: "add_days d (numeral n) = add_days (next_day d) (pred_numeral n)"
  by (simp add: numeral_eq_Suc)

lemma predict_loop_months:
  assumes "\<And>f. \<exists>x. predict f = PyFloat x"
  shows "\<exists>rs. predict_loop ff predict append_row med last_date steps h = Inr rs \<and>
           map fr_data rs = map (\<lambda>i. strftime_Y_m (add_days last_date (30 * i))) steps \<and>
           length rs = length steps"
proof (induction steps arbitrary: h)
  case Nil
  show ?case by simp
next
  case (Cons i steps)
  define dt where "dt = add_days last_date (30 * i)"
  from assms obtain x where x: "predict (ff h dt) = PyFloat x" by blast
  define v where "v = (if 0 < x then PyFloat x else PyInt 0)"
  have m: "py_max0 (PyFloat x) = Inr v" by (simp add: py_max0_def v_def)
  obtain c where c: "py_round0 v = Inr c" by (cases "0 < x") (simp_all add: v_def)
  from Cons.IH [of "append_row h (ff h dt) v (strftime_Y_m dt)"] obtain rs where
    rs: "predict_loop ff predict append_row med last_date steps (append_row h (ff h dt) v (strftime_Y_m dt)) = Inr rs"
    and ms: "map fr_data rs = map (\<lambda>i. strftime_Y_m (add_days last_date (30 * i))) steps"
    and ln: "length rs = length steps"
    by blast
  show ?case
    using x m c rs ms ln by (simp add: Let_def dt_def [symmetric])
qed

lemma history_months:
  "strftime_Y_m (add_days (2023, 1, 1) (30 * 1)) = ''2023-01''"
  "strftime_Y_m (add_days (2023, 1, 1) (30 * 2)) = ''2023-03''"
  "strftime_Y_m (add_days (2023, 1, 1) (30 * 3)) = ''2023-04''"
  "strftime_Y_m (add_days (2023, 1, 1) (30 * 4)) = ''2023-05''"
  "strftime_Y_m (add_days (2023, 1, 1) (30 * 5)) = ''2023-05''"
  by (simp_all add: add_days_numeral days_in_month_def leap_year_def strftime_Y_m_def
      digit_char_def)

text \<open>
  C2 at the history whose last month is 2023-01. The last historical date is 1 January
  2023 and step \<open>i\<close> is dated 30 * i days later: step 1 falls on 31 January, so with
  horizon 1 the only record has the month 2023-01, which is not after the last
  historical month; with horizon 5 the months are 2023-01, 2023-03, 2023-04, 2023-05 and
  2023-05, which skip February and repeat May. This holds whatever the model predicts
  and whatever the feature functions return.
\<close>

theorem predict_future_months:
  assumes "to_datetime ''2023-01-01'' = Inr (2023, 1, 1)" and "\<And>f. \<exists>x. predict f = PyFloat x"
  shows "\<exists>rs1 rs5.
           predict_future to_datetime prepare ff predict append_row history_frame ''A'' 1 = Inr rs1 \<and>
           map fr_data rs1 = [''2023-01''] \<and>
           predict_future to_datetime prepare ff predict append_row history_frame ''A'' 5 = Inr rs5 \<and>
           map fr_data rs5 = [''2023-01'', ''2023-03'', ''2023-04'', ''2023-05'', ''2023-05'']"
proof -
  have run: "predict_future to_datetime prepare ff predict append_row history_frame ''A'' n =
      predict_loop ff predict append_row ''A'' (2023, 1, 1) [1 ..< Suc n] (prepare (rows history_frame))"
    for n
    using assms(1)
    by (simp add: predict_future_def history_frame_def column_def getitem_def is_Str_def
        token_of_def)
  have pl: "\<exists>rs. predict_loop ff predict append_row ''A'' (2023, 1, 1) steps
                (prepare (rows history_frame)) = Inr rs \<and>
             map fr_data rs = map (\<lambda>i. strftime_Y_m (add_days (2023, 1, 1) (30 * i))) steps \<and>
             length rs = length steps" for steps
    by (rule predict_loop_months) (rule assms(2))
  from pl [of "[1 ..< Suc 1]"]
  obtain rs1 where
    r1: "predict_loop ff predict append_row ''A'' (2023, 1, 1) [1 ..< Suc 1] (prepare (rows history_frame)) = Inr rs1"
    and m1: "map fr_data rs1 = map (\<lambda>i. strftime_Y_m (add_days (2023, 1, 1) (30 * i))) [1 ..< Suc 1]"
    by blast
  from pl [of "[1 ..< Suc 5]"]
  obtain rs5 where
    r5: "predict_loop ff predict append_row ''A'' (2023, 1, 1) [1 ..< Suc 5] (prepare (rows history_frame)) = Inr rs5"
    and m5: "map fr_data rs5 = map (\<lambda>i. strftime_Y_m (add_days (2023, 1, 1) (30 * i))) [1 ..< Suc 5]"
    by blast
  have u1: "[1 ..< Suc 1] = [1::nat]" by simp
  have u5: "[1 ..< Suc 5] = [1, 2, 3, 4, 5::nat]" by (simp add: upt_rec)
  from m1 have a1: "map fr_data rs1 = [''2023-01'']"
    unfolding u1 by (simp only: list.map history_months)
  from m5 have a5: "map fr_data rs5 = [''2023-01'', ''2023-03'', ''2023-04'', ''2023-05'', ''2023-05'']"
    unfolding u5 by (simp only: list.map history_months)
  show ?thesis
    unfolding run by (intro exI conjI) (rule r1 a1 r5 a5)+
qed

text \<open>
  An instance: \<open>to_datetime\<close> reads the first of January 2023, the model predicts 10.
\<close>

theorem predict_future_months_witness:
  "\<exists>rs1 rs5.
     predict_future (\<lambda>s. Inr (2023, 1, 1)) (\<lambda>rs. ()) (\<lambda>h d. ()) (\<lambda>f. PyFloat 10) (\<lambda>h f v s. ())
       history_frame ''A'' 1 = Inr rs1 \<and>
     map fr_data rs1 = [''2023-01''] \<and>
     predict_future (\<lambda>s. Inr (2023, 1, 1)) (\<lambda>rs. ()) (\<lambda>h d. ()) (\<lambda>f. PyFloat 10) (\<lambda>h f v s. ())
       history_frame ''A'' 5 = Inr rs5 \<and>
     map fr_data rs5 = [''2023-01'', ''2023-03'', ''2023-04'', ''2023-05'', ''2023-05'']"
  by (rule predict_future_months) simp_all

section \<open>The cleaner on three tables\<close>

lemma clean_numeric_column_length:
  assumes "\<And>ss. length (to_numeric lib ss) = length ss"
  shows "length (clean_numeric_column lib vs) = length vs"
  using assms by (simp add: clean_numeric_column_def fillna0_def Let_def)

lemma singleton_of_length: "length xs = length [a] \<Longrightarrow> \<exists>x. xs = [x]"
  by (cases xs) auto

lemma strptime_bad_month:
  "strptime ''2024-13'' [Dir_Y, Lit CHR ''-'', Dir_m] = None"
  "strptime ''2024-13'' [Dir_Y, Lit CHR ''/'', Dir_m] = None"
  "strptime ''2024-13'' [Dir_Y, Dir_m] = None"
  "strptime ''2024-13'' [Dir_d, Lit CHR ''/'', Dir_m, Lit CHR ''/'', Dir_Y] = None"
  "strptime ''2024-13'' [Dir_Y, Lit CHR ''-'', Dir_m, Lit CHR ''-'', Dir_d] = None"
  by (simp_all add: strptime_def is_digit_def in_range_def digit_val_def)

lemma format_bad_month: "format_date lib (Str ''2024-13'') = Str ''2024-13''"
  by (simp add: format_date_def date_formats_def strptime_bad_month)


lemma clean_missing_column:
  assumes "\<not> empty df" and "\<not> set required_columns \<subseteq> set (columns df)"
  shows "clean lib df = Inl (ValueError required_columns)"
proof -
  from assms(2) have "filter (\<lambda>c. c \<notin> set (columns df)) required_columns \<noteq> []"
    by (auto simp: filter_empty_conv)
  with assms(1) show ?thesis
    by (simp add: clean_def validate_structure_def validate_dataframe_def)
qed

text \<open>
  C5 at the table whose only row has the month token 2024-13. None of the five formats
  reads the token, so \<open>format_date\<close> returns it as it is; it has the shape of
  \<open>\d{4}-\d{2}\<close>, so the filter keeps the row; one row has no standard deviation, so
  the outlier pass keeps it: the cleaned table holds the row with the month 2024-13.
\<close>

theorem clean_keeps_bad_month:
  assumes "\<And>ss. length (to_numeric lib ss) = length ss" and "\<And>v. series_std lib [v] = NaN"
  shows "\<exists>out. clean lib bad_month_frame = Inr out \<and>
           map (\<lambda>r. r ''data'') (rows out) = [Some (Str ''2024-13'')]"
proof -
  note len = clean_numeric_column_length [of lib, OF assms(1)]
  from singleton_of_length [OF len] obtain c where
    c: "clean_numeric_column lib [PyInt 10] = [c]" by blast
  from singleton_of_length [OF len] obtain e where
    e: "clean_numeric_column lib [PyInt 5] = [e]" by blast
  show ?thesis
    by (simp add: clean_def bad_month_frame_def required_columns_def empty_def
        validate_structure_def validate_dataframe_def remove_duplicates_def
        handle_missing_values_def map_column_def setitem_def get_def fillna0_def is_float_def
        clean_columns_def c e normalize_dates_def format_bad_month is_Str_def str_match_def
        month_shape_def is_digit_def remove_outliers_def remove_outliers_col_def assms(2)
        sort_data_def Let_def)
qed

theorem clean_keeps_bad_month_witness:
  "\<exists>out. clean sample_lib bad_month_frame = Inr out \<and>
     map (\<lambda>r. r ''data'') (rows out) = [Some (Str ''2024-13'')]"
  by (rule clean_keeps_bad_month) (simp_all add: sample_lib_def)



text \<open>
  C6 at the table whose month column holds the number 202401. All four required columns
  are there; \<open>format_date\<close> returns a number as it is, and the \<open>.str\<close> accessor of the
  filter raises \<open>AttributeError\<close> on a column of numbers: \<open>clean\<close> does not return.
\<close>

theorem clean_numeric_month_raises:
  assumes "\<And>ss. length (to_numeric lib ss) = length ss"
  shows "set required_columns \<subseteq> set (columns numeric_month_frame) \<and>
         \<not> empty numeric_month_frame \<and>
         clean lib numeric_month_frame = Inl AttributeError"
proof -
  note len = clean_numeric_column_length [of lib, OF assms]
  from singleton_of_length [OF len] obtain c where
    c: "clean_numeric_column lib [PyInt 10] = [c]" by blast
  from singleton_of_length [OF len] obtain e where
    e: "clean_numeric_column lib [PyInt 5] = [e]" by blast
  show ?thesis
    by (simp add: clean_def numeric_month_frame_def required_columns_def empty_def
        validate_structure_def validate_dataframe_def remove_duplicates_def
        handle_missing_values_def map_column_def setitem_def get_def fillna0_def is_float_def
        clean_columns_def c e normalize_dates_def format_date_def is_Str_def Let_def)
qed

theorem clean_numeric_month_raises_witness:
  "set required_columns \<subseteq> set (columns numeric_month_frame) \<and>
   \<not> empty numeric_month_frame \<and>
   clean sample_lib numeric_month_frame = Inl AttributeError"
  by (rule clean_numeric_month_raises) (simp add: sample_lib_def)

end
